theory Spec2Isabelle
  imports Complex_Main "HOL-Library.AList"
begin

section \<open>Numeric cells\<close>

text \<open>
  The numeric columns of the holdings table are pandas float64 (or int64) columns.  The
  program is embedded twice.  In this first embedding a cell is either the missing value
  NaN or a finite number, and finite numbers are exact rationals: it follows the control
  flow, the missing-value propagation and the rounding-to-integer rules of the program, and
  does not model binary rounding error, overflow or infinities.  It carries the properties
  that do not depend on what an arithmetic operation returns (guards, missing values, rows
  and columns, the Validator) and the evaluation of the scenarios, whose values are far from
  any rounding tie.  The properties that name an arithmetic result are proved on the second
  embedding, where the float64 operations are parameters.  Every division of the program
  has a divisor that is the literal 100 or is guarded to be positive, so no division by
  zero is ever evaluated; \<open>fdiv\<close> returns NaN on a zero divisor only to be total.
\<close>

datatype fval = NaN | Fin rat

fun fadd :: "fval \<Rightarrow> fval \<Rightarrow> fval" where
  "fadd (Fin a) (Fin b) = Fin (a + b)"
| "fadd _ _ = NaN"

fun fsub :: "fval \<Rightarrow> fval \<Rightarrow> fval" where
  "fsub (Fin a) (Fin b) = Fin (a - b)"
| "fsub _ _ = NaN"

fun fmul :: "fval \<Rightarrow> fval \<Rightarrow> fval" where
  "fmul (Fin a) (Fin b) = Fin (a * b)"
| "fmul _ _ = NaN"

fun fdiv :: "fval \<Rightarrow> fval \<Rightarrow> fval" where
  "fdiv (Fin a) (Fin b) = (if b = 0 then NaN else Fin (a / b))"
| "fdiv _ _ = NaN"

text \<open>Comparisons with NaN are false, as in Python and numpy.\<close>

fun fgt :: "fval \<Rightarrow> fval \<Rightarrow> bool" where
  "fgt (Fin a) (Fin b) = (a > b)"
| "fgt _ _ = False"

fun flt :: "fval \<Rightarrow> fval \<Rightarrow> bool" where
  "flt (Fin a) (Fin b) = (a < b)"
| "flt _ _ = False"

text \<open>\<open>Series.sum()\<close> with the default \<open>skipna=True\<close>: missing cells are left out, and
  the sum of no cells is 0.\<close>

fun fsum :: "fval list \<Rightarrow> fval" where
  "fsum [] = Fin 0"
| "fsum (NaN # xs) = fsum xs"
| "fsum (Fin a # xs) = fadd (Fin a) (fsum xs)"

text \<open>Python's \<open>round(x)\<close> on a float: the nearest integer, a tie going to the even one.\<close>

definition py_round :: "rat \<Rightarrow> int" where
  "py_round q =
     (let f = \<lfloor>q\<rfloor>; d = q - of_int f
      in if d < 1 / 2 then f else if 1 / 2 < d then f + 1
         else if even f then f else f + 1)"

text \<open>\<open>Series.round(2)\<close> and \<open>round(x, 2)\<close>: two decimals, ties to even; NaN stays NaN.\<close>

fun round2 :: "fval \<Rightarrow> fval" where
  "round2 NaN = NaN"
| "round2 (Fin q) = Fin (of_int (py_round (q * 100)) / 100)"

section \<open>The holdings table\<close>

text \<open>
  A DataFrame is its row count and its columns in order.  A column is numeric or an object
  column of strings, where \<open>None\<close> is a missing cell.  Column names are unique.  The
  type of the numeric cells is a parameter of the table types, so that the operations on
  tables below serve both embeddings of the arithmetic.
\<close>

datatype 'n series = NumCol "'n list" | StrCol "string option list"

record 'n frame =
  nrows :: nat
  cols :: "(string \<times> 'n series) list"

type_synonym column = "fval series"

type_synonym dataframe = "fval frame"

datatype error = KeyError string | TypeError | ValueError | OverflowError

definition bind_res :: "error + 'a \<Rightarrow> ('a \<Rightarrow> error + 'b) \<Rightarrow> error + 'b" where
  "bind_res m f = (case m of Inl e \<Rightarrow> Inl e | Inr x \<Rightarrow> f x)"

definition columns :: "'n frame \<Rightarrow> string list" where
  "columns df = map fst (cols df)"

text \<open>\<open>df[name]\<close>: KeyError when the column is absent.\<close>

definition get_col :: "'n frame \<Rightarrow> string \<Rightarrow> error + 'n series" where
  "get_col df name =
     (case map_of (cols df) name of None \<Rightarrow> Inl (KeyError name) | Some c \<Rightarrow> Inr c)"

text \<open>A column read for arithmetic.  An object column is not numeric: the model answers
  TypeError, and every theorem below is about tables whose numeric columns are numeric.\<close>

definition get_num :: "'n frame \<Rightarrow> string \<Rightarrow> error + 'n list" where
  "get_num df name =
     bind_res (get_col df name)
       (\<lambda>c. case c of NumCol xs \<Rightarrow> Inr xs | StrCol _ \<Rightarrow> Inl TypeError)"

text \<open>\<open>df[name] = values\<close>: overwrites the column in place, or appends a new last column.\<close>

definition set_col :: "'n frame \<Rightarrow> string \<Rightarrow> 'n series \<Rightarrow> 'n frame" where
  "set_col df name c = df\<lparr>cols := AList.update name c (cols df)\<rparr>"

fun col_len :: "'n series \<Rightarrow> nat" where
  "col_len (NumCol xs) = length xs"
| "col_len (StrCol xs) = length xs"

text \<open>The invariant of a DataFrame: unique column names, every column as long as the index.\<close>

definition wf_df :: "'n frame \<Rightarrow> bool" where
  "wf_df df \<longleftrightarrow>
     distinct (columns df) \<and> list_all (\<lambda>p. col_len (snd p) = nrows df) (cols df)"

text \<open>\<open>df[names]\<close>: a new table of the named columns, in the order given.\<close>

fun select_cols :: "'n frame \<Rightarrow> string list \<Rightarrow> error + (string \<times> 'n series) list" where
  "select_cols df [] = Inr []"
| "select_cols df (n # ns) =
     bind_res (get_col df n) (\<lambda>c.
     bind_res (select_cols df ns) (\<lambda>r. Inr ((n, c) # r)))"

definition select :: "'n frame \<Rightarrow> string list \<Rightarrow> error + 'n frame" where
  "select df names =
     bind_res (select_cols df names) (\<lambda>r. Inr \<lparr>nrows = nrows df, cols = r\<rparr>)"

section \<open>Metrics Calculator\<close>

text \<open>
  The functions receive the table by reference and write columns into it.  Each is
  embedded as a function from the table to either the raised error or the returned value
  paired with the table as it is after the call.  A call that raises gives the error only:
  the writes it made before the raise are not part of the model.

  An elementwise operation on two columns of one table pairs their cells row by row, since
  the columns share the index; \<open>sum\<close>, \<open>round\<close> and the comparison with 0 are the
  pandas and Python operations described above.
\<close>

definition calculate_portfolio_metrics ::
  "dataframe \<Rightarrow> error + ((fval \<times> fval \<times> fval) \<times> dataframe)" where
  "calculate_portfolio_metrics df =
     bind_res (get_num df ''Shares Held'') (\<lambda>sh.
     bind_res (get_num df ''Current Price (per share)'') (\<lambda>pr.
     let df1 = set_col df ''Current Value'' (NumCol (map2 fmul sh pr)) in
     bind_res (get_num df1 ''Current Value'') (\<lambda>cv.
     let total_value = fsum cv in
     bind_res
       (if fgt total_value (Fin 0)
        then bind_res (get_num df1 ''Current Value'') (\<lambda>cv'.
               Inr (set_col df1 ''Current Weight (%)''
                 (NumCol (map (\<lambda>v. round2 (fmul (fdiv v total_value) (Fin 100))) cv'))))
        else Inr (set_col df1 ''Current Weight (%)''
                 (NumCol (replicate (nrows df1) (Fin 0))))) (\<lambda>df2.
     bind_res (get_num df2 ''Current Weight (%)'') (\<lambda>cw.
     let total_current_weight = round2 (fsum cw) in
     bind_res (get_num df2 ''Target Weight (%)'') (\<lambda>tw.
     let total_target_weight = round2 (fsum tw) in
     Inr ((total_value, total_current_weight, total_target_weight), df2)))))))"

section \<open>Share optimization\<close>

text \<open>
  The loop over \<open>zip(prices, target_values)\<close>, with the list \<open>shares\<close> as accumulator.
  The guard \<open>price > 0\<close> is false for a missing price.  \<open>round\<close> of a NaN quotient
  raises ValueError; the quotient is NaN exactly when the target value is.
\<close>

fun optimize_loop :: "int list \<Rightarrow> (fval \<times> fval) list \<Rightarrow> error + int list" where
  "optimize_loop shares [] = Inr shares"
| "optimize_loop shares ((price, target) # rest) =
     (if fgt price (Fin 0)
      then (case fdiv target price of
              NaN \<Rightarrow> Inl ValueError
            | Fin q \<Rightarrow> optimize_loop (shares @ [py_round q]) rest)
      else optimize_loop (shares @ [0]) rest)"

definition optimize_shares :: "fval list \<Rightarrow> fval list \<Rightarrow> error + int list" where
  "optimize_shares prices target_values = optimize_loop [] (zip prices target_values)"

section \<open>Validator\<close>

text \<open>\<open>series < 0\<close>: elementwise on a numeric column, false at NaN.  On an object column
  the missing cells compare false and a string cell raises TypeError.\<close>

fun col_lt0 :: "column \<Rightarrow> error + bool list" where
  "col_lt0 (NumCol xs) = Inr (map (\<lambda>x. flt x (Fin 0)) xs)"
| "col_lt0 (StrCol xs) =
     (if list_ex (\<lambda>x. x \<noteq> None) xs then Inl TypeError else Inr (map (\<lambda>x. False) xs))"

fun col_isna :: "column \<Rightarrow> bool list" where
  "col_isna (NumCol xs) = map (\<lambda>x. x = NaN) xs"
| "col_isna (StrCol xs) = map (\<lambda>x. x = None) xs"

fun col_eq_str :: "column \<Rightarrow> string \<Rightarrow> bool list" where
  "col_eq_str (NumCol xs) s = map (\<lambda>x. False) xs"
| "col_eq_str (StrCol xs) s = map (\<lambda>x. x = Some s) xs"

definition any :: "bool list \<Rightarrow> bool" where
  "any bs = list_ex (\<lambda>b. b) bs"

text \<open>The text of a list of column names inside an f-string: each name in single quotes
  (the required names hold no quote or backslash), separated by a comma and a space.\<close>

fun join_names :: "string list \<Rightarrow> string" where
  "join_names [] = []"
| "join_names [s] = [CHR 0x27] @ s @ [CHR 0x27]"
| "join_names (s # t # ts) = [CHR 0x27] @ s @ [CHR 0x27] @ '', '' @ join_names (t # ts)"

definition py_repr_list :: "string list \<Rightarrow> string" where
  "py_repr_list xs = ''['' @ join_names xs @ '']''"

definition validate_portfolio_data :: "dataframe \<Rightarrow> error + (string list \<times> dataframe)" where
  "validate_portfolio_data df =
     (let errors = [];
          required_columns = [''Ticker'', ''Shares Held'', ''Target Weight (%)''];
          missing_columns = filter (\<lambda>col. col \<notin> set (columns df)) required_columns;
          errors = (if missing_columns \<noteq> []
                    then errors @ [''Missing required columns: '' @ py_repr_list missing_columns]
                    else errors)
      in
      bind_res
        (if ''Shares Held'' \<in> set (columns df)
         then bind_res (get_col df ''Shares Held'') (\<lambda>c.
              bind_res (col_lt0 c) (\<lambda>neg.
              Inr (if any neg then errors @ [''Shares held cannot be negative''] else errors)))
         else Inr errors) (\<lambda>errors.
      bind_res
        (if ''Target Weight (%)'' \<in> set (columns df)
         then bind_res (get_col df ''Target Weight (%)'') (\<lambda>c.
              bind_res (col_lt0 c) (\<lambda>neg.
              Inr (if any neg then errors @ [''Target weights cannot be negative''] else errors)))
         else Inr errors) (\<lambda>errors.
      bind_res
        (if ''Ticker'' \<in> set (columns df)
         then bind_res (get_col df ''Ticker'') (\<lambda>c.
              Inr (if any (col_isna c) \<or> any (col_eq_str c '''')
                   then errors @ [''Ticker symbols cannot be empty''] else errors))
         else Inr errors) (\<lambda>errors.
      Inr (errors, df)))))"

section \<open>Rebalancing Engine\<close>

definition column_order :: "string list" where
  "column_order =
     [''Ticker'', ''Shares Held'', ''Current Price (per share)'', ''Current Weight (%)'',
      ''Current Value'', ''Target Weight (%)'', ''Target Value'', ''Target Shares'',
      ''Target Value (Actual)'', ''Difference'', ''Action'', ''Shares to Buy/Sell'',
      ''Real Weight (%)'']"

definition reorder_rebalanced_columns :: "'n frame \<Rightarrow> error + 'n frame" where
  "reorder_rebalanced_columns df =
     (let available_columns = filter (\<lambda>col. col \<in> set (columns df)) column_order;
          remaining_columns = filter (\<lambda>col. col \<notin> set available_columns) (columns df);
          final_column_order = available_columns @ remaining_columns
      in select df final_column_order)"

text \<open>The lambda applied to the Difference column: a NaN difference fails both tests.\<close>

definition action_of :: "fval \<Rightarrow> string" where
  "action_of x = (if fgt x (Fin 0) then ''Buy'' else if flt x (Fin 0) then ''Sell'' else ''Hold'')"

text \<open>The engine returns the reordered copy; the second component of the result is the
  input table as the seven writes left it.\<close>

definition calculate_rebalancing_metrics ::
  "dataframe \<Rightarrow> fval \<Rightarrow> error + (dataframe \<times> dataframe)" where
  "calculate_rebalancing_metrics df additional_capital =
     bind_res (get_num df ''Current Value'') (\<lambda>cv.
     let total_current_value = fsum cv;
         new_total_value = fadd total_current_value additional_capital in
     bind_res (get_num df ''Target Weight (%)'') (\<lambda>tw.
     let df1 = set_col df ''Target Value''
                 (NumCol (map (\<lambda>w. fmul (fdiv w (Fin 100)) new_total_value) tw)) in
     bind_res (get_num df1 ''Current Price (per share)'') (\<lambda>prices.
     bind_res (get_num df1 ''Target Value'') (\<lambda>target_values.
     bind_res (optimize_shares prices target_values) (\<lambda>shares.
     let df2 = set_col df1 ''Target Shares'' (NumCol (map (\<lambda>n. Fin (of_int n)) shares)) in
     bind_res (get_num df2 ''Target Shares'') (\<lambda>ts.
     bind_res (get_num df2 ''Current Price (per share)'') (\<lambda>pr.
     let df3 = set_col df2 ''Target Value (Actual)'' (NumCol (map2 fmul ts pr)) in
     bind_res (get_num df3 ''Target Value (Actual)'') (\<lambda>tva.
     bind_res (get_num df3 ''Current Value'') (\<lambda>cv'.
     let df4 = set_col df3 ''Difference'' (NumCol (map2 fsub tva cv')) in
     bind_res (get_num df4 ''Difference'') (\<lambda>diff.
     let df5 = set_col df4 ''Action'' (StrCol (map (\<lambda>x. Some (action_of x)) diff)) in
     bind_res (get_num df5 ''Target Shares'') (\<lambda>ts'.
     bind_res (get_num df5 ''Shares Held'') (\<lambda>sh.
     let df6 = set_col df5 ''Shares to Buy/Sell'' (NumCol (map2 fsub ts' sh)) in
     bind_res (get_num df6 ''Target Value (Actual)'') (\<lambda>tva'.
     let total_rebalanced_value = fsum tva' in
     bind_res
       (if fgt total_rebalanced_value (Fin 0)
        then bind_res (get_num df6 ''Target Value (Actual)'') (\<lambda>tva''.
               Inr (set_col df6 ''Real Weight (%)''
                 (NumCol (map (\<lambda>v. round2 (fmul (fdiv v total_rebalanced_value) (Fin 100)))
                    tva''))))
        else Inr (set_col df6 ''Real Weight (%)''
                 (NumCol (replicate (nrows df6) (Fin 0))))) (\<lambda>df7.
     bind_res (reorder_rebalanced_columns df7) (\<lambda>out.
     Inr (out, df7))))))))))))))))"

section \<open>The float64 operations as parameters\<close>

text \<open>
  A second embedding of the same three functions, for the properties that depend on what
  the arithmetic returns.  A float64 cell is NaN, an infinity or a finite number; a finite
  float64 is a rational, so the comparisons with 0 are exact.  The results of the
  arithmetic are not computed here: addition, subtraction, multiplication and division of
  two cells that are not NaN, and the sum of a column without NaN, are parameters, collected
  in \<open>arith\<close>.  Whatever the runtime returns for them, rounded, overflowed to an infinity, or
  NaN for an invalid operation, is one choice of the parameters, so a result proved for
  every \<open>arith\<close> holds for the float64 arithmetic of the program.  What is fixed is what the
  runtime fixes for every float64: an operation with a NaN operand gives NaN, \<open>sum\<close>
  counts a missing cell as 0, \<open>rint\<close> of a finite number is the nearest integer with ties
  to even, and \<open>round\<close> raises ValueError on NaN and OverflowError on an infinity.
\<close>

datatype f64 = FNaN | PosInf | NegInf | FNum rat

record arith =
  op_add :: "f64 \<Rightarrow> f64 \<Rightarrow> f64"
  op_sub :: "f64 \<Rightarrow> f64 \<Rightarrow> f64"
  op_mul :: "f64 \<Rightarrow> f64 \<Rightarrow> f64"
  op_div :: "f64 \<Rightarrow> f64 \<Rightarrow> f64"
  op_sum :: "f64 list \<Rightarrow> f64"

definition add64 :: "arith \<Rightarrow> f64 \<Rightarrow> f64 \<Rightarrow> f64" where
  "add64 A x y = (if x = FNaN \<or> y = FNaN then FNaN else op_add A x y)"

definition sub64 :: "arith \<Rightarrow> f64 \<Rightarrow> f64 \<Rightarrow> f64" where
  "sub64 A x y = (if x = FNaN \<or> y = FNaN then FNaN else op_sub A x y)"

definition mul64 :: "arith \<Rightarrow> f64 \<Rightarrow> f64 \<Rightarrow> f64" where
  "mul64 A x y = (if x = FNaN \<or> y = FNaN then FNaN else op_mul A x y)"

definition div64 :: "arith \<Rightarrow> f64 \<Rightarrow> f64 \<Rightarrow> f64" where
  "div64 A x y = (if x = FNaN \<or> y = FNaN then FNaN else op_div A x y)"

text \<open>\<open>x > 0\<close> and \<open>x < 0\<close>: false for NaN.\<close>

fun pos64 :: "f64 \<Rightarrow> bool" where
  "pos64 PosInf = True"
| "pos64 (FNum a) = (0 < a)"
| "pos64 _ = False"

fun neg64 :: "f64 \<Rightarrow> bool" where
  "neg64 NegInf = True"
| "neg64 (FNum a) = (a < 0)"
| "neg64 _ = False"

text \<open>\<open>Series.sum()\<close> with \<open>skipna=True\<close>: the missing cells are filled with 0 and the
  column is summed.\<close>

definition fill0 :: "f64 \<Rightarrow> f64" where
  "fill0 x = (if x = FNaN then FNum 0 else x)"

definition sum64 :: "arith \<Rightarrow> f64 list \<Rightarrow> f64" where
  "sum64 A xs = op_sum A (map fill0 xs)"

text \<open>Rounding to two decimals as numpy does it, for \<open>Series.round(2)\<close> and for
  \<open>round(x, 2)\<close> of a numpy scalar: multiply by 100, \<open>rint\<close>, divide by 100.\<close>

fun rint64 :: "f64 \<Rightarrow> f64" where
  "rint64 (FNum q) = FNum (of_int (py_round q))"
| "rint64 x = x"

definition round2_64 :: "arith \<Rightarrow> f64 \<Rightarrow> f64" where
  "round2_64 A x = div64 A (rint64 (mul64 A x (FNum 100))) (FNum 100)"

definition calculate_portfolio_metrics_fp ::
  "arith \<Rightarrow> f64 frame \<Rightarrow> error + ((f64 \<times> f64 \<times> f64) \<times> f64 frame)" where
  "calculate_portfolio_metrics_fp A df =
     bind_res (get_num df ''Shares Held'') (\<lambda>sh.
     bind_res (get_num df ''Current Price (per share)'') (\<lambda>pr.
     let df1 = set_col df ''Current Value'' (NumCol (map2 (mul64 A) sh pr)) in
     bind_res (get_num df1 ''Current Value'') (\<lambda>cv.
     let total_value = sum64 A cv in
     bind_res
       (if pos64 total_value
        then bind_res (get_num df1 ''Current Value'') (\<lambda>cv'.
               Inr (set_col df1 ''Current Weight (%)''
                 (NumCol (map (\<lambda>v. round2_64 A (mul64 A (div64 A v total_value) (FNum 100)))
                    cv'))))
        else Inr (set_col df1 ''Current Weight (%)''
                 (NumCol (replicate (nrows df1) (FNum 0))))) (\<lambda>df2.
     bind_res (get_num df2 ''Current Weight (%)'') (\<lambda>cw.
     let total_current_weight = round2_64 A (sum64 A cw) in
     bind_res (get_num df2 ''Target Weight (%)'') (\<lambda>tw.
     let total_target_weight = round2_64 A (sum64 A tw) in
     Inr ((total_value, total_current_weight, total_target_weight), df2)))))))"

text \<open>The loop of \<open>optimize_shares\<close>: the quotient is the float64 quotient, and \<open>round\<close>
  raises on a quotient that is NaN or infinite.\<close>

fun optimize_loop_fp :: "arith \<Rightarrow> int list \<Rightarrow> (f64 \<times> f64) list \<Rightarrow> error + int list" where
  "optimize_loop_fp A shares [] = Inr shares"
| "optimize_loop_fp A shares ((price, target) # rest) =
     (if pos64 price
      then (case div64 A target price of
              FNaN \<Rightarrow> Inl ValueError
            | PosInf \<Rightarrow> Inl OverflowError
            | NegInf \<Rightarrow> Inl OverflowError
            | FNum q \<Rightarrow> optimize_loop_fp A (shares @ [py_round q]) rest)
      else optimize_loop_fp A (shares @ [0]) rest)"

definition optimize_shares_fp :: "arith \<Rightarrow> f64 list \<Rightarrow> f64 list \<Rightarrow> error + int list" where
  "optimize_shares_fp A prices target_values = optimize_loop_fp A [] (zip prices target_values)"

definition action_of_fp :: "f64 \<Rightarrow> string" where
  "action_of_fp x = (if pos64 x then ''Buy'' else if neg64 x then ''Sell'' else ''Hold'')"

definition calculate_rebalancing_metrics_fp ::
  "arith \<Rightarrow> f64 frame \<Rightarrow> f64 \<Rightarrow> error + (f64 frame \<times> f64 frame)" where
  "calculate_rebalancing_metrics_fp A df additional_capital =
     bind_res (get_num df ''Current Value'') (\<lambda>cv.
     let total_current_value = sum64 A cv;
         new_total_value = add64 A total_current_value additional_capital in
     bind_res (get_num df ''Target Weight (%)'') (\<lambda>tw.
     let df1 = set_col df ''Target Value''
                 (NumCol (map (\<lambda>w. mul64 A (div64 A w (FNum 100)) new_total_value) tw)) in
     bind_res (get_num df1 ''Current Price (per share)'') (\<lambda>prices.
     bind_res (get_num df1 ''Target Value'') (\<lambda>target_values.
     bind_res (optimize_shares_fp A prices target_values) (\<lambda>shares.
     let df2 = set_col df1 ''Target Shares'' (NumCol (map (\<lambda>n. FNum (of_int n)) shares)) in
     bind_res (get_num df2 ''Target Shares'') (\<lambda>ts.
     bind_res (get_num df2 ''Current Price (per share)'') (\<lambda>pr.
     let df3 = set_col df2 ''Target Value (Actual)'' (NumCol (map2 (mul64 A) ts pr)) in
     bind_res (get_num df3 ''Target Value (Actual)'') (\<lambda>tva.
     bind_res (get_num df3 ''Current Value'') (\<lambda>cv'.
     let df4 = set_col df3 ''Difference'' (NumCol (map2 (sub64 A) tva cv')) in
     bind_res (get_num df4 ''Difference'') (\<lambda>diff.
     let df5 = set_col df4 ''Action'' (StrCol (map (\<lambda>x. Some (action_of_fp x)) diff)) in
     bind_res (get_num df5 ''Target Shares'') (\<lambda>ts'.
     bind_res (get_num df5 ''Shares Held'') (\<lambda>sh.
     let df6 = set_col df5 ''Shares to Buy/Sell'' (NumCol (map2 (sub64 A) ts' sh)) in
     bind_res (get_num df6 ''Target Value (Actual)'') (\<lambda>tva'.
     let total_rebalanced_value = sum64 A tva' in
     bind_res
       (if pos64 total_rebalanced_value
        then bind_res (get_num df6 ''Target Value (Actual)'') (\<lambda>tva''.
               Inr (set_col df6 ''Real Weight (%)''
                 (NumCol (map (\<lambda>v. round2_64 A
                                 (mul64 A (div64 A v total_rebalanced_value) (FNum 100)))
                    tva''))))
        else Inr (set_col df6 ''Real Weight (%)''
                 (NumCol (replicate (nrows df6) (FNum 0))))) (\<lambda>df7.
     bind_res (reorder_rebalanced_columns df7) (\<lambda>out.
     Inr (out, df7))))))))))))))))"

text \<open>One choice of the parameters, for examples: results without rounding on finite
  operands, and NaN where an infinity is involved.  It is not the arithmetic of float64.\<close>

fun exact_op :: "(rat \<Rightarrow> rat \<Rightarrow> rat) \<Rightarrow> f64 \<Rightarrow> f64 \<Rightarrow> f64" where
  "exact_op f (FNum a) (FNum b) = FNum (f a b)"
| "exact_op f _ _ = FNaN"

fun exact_quotient :: "f64 \<Rightarrow> f64 \<Rightarrow> f64" where
  "exact_quotient (FNum a) (FNum b) = (if b = 0 then FNaN else FNum (a / b))"
| "exact_quotient _ _ = FNaN"

fun exact_sum :: "f64 list \<Rightarrow> f64" where
  "exact_sum [] = FNum 0"
| "exact_sum (x # xs) = exact_op (+) x (exact_sum xs)"

definition exact_arith :: arith where
  "exact_arith = \<lparr>op_add = exact_op (+), op_sub = exact_op (-), op_mul = exact_op (*),
                   op_div = exact_quotient, op_sum = exact_sum\<rparr>"

section \<open>Notions used to state the properties\<close>

text \<open>The specification's rounding rule: an integer nearest to the quotient, and the even
  one when the quotient lies exactly between two integers.\<close>

definition nearest_half_even :: "rat \<Rightarrow> int \<Rightarrow> bool" where
  "nearest_half_even q n \<longleftrightarrow>
     \<bar>of_int n - q\<bar> \<le> 1 / 2 \<and> (\<bar>of_int n - q\<bar> = 1 / 2 \<longrightarrow> even n)"

text \<open>A row on which \<open>round\<close> raises: the price is positive and the quotient is NaN,
  which happens exactly when the target value is missing.\<close>

definition raises_row :: "fval \<times> fval \<Rightarrow> bool" where
  "raises_row r = (fgt (fst r) (Fin 0) \<and> fdiv (snd r) (fst r) = NaN)"

text \<open>The share count of one row, as the specification gives it.\<close>

definition share_of :: "fval \<times> fval \<Rightarrow> int" where
  "share_of r =
     (if fgt (fst r) (Fin 0)
      then (case fdiv (snd r) (fst r) of NaN \<Rightarrow> 0 | Fin q \<Rightarrow> py_round q)
      else 0)"

text \<open>The percentage weights of section 3 of the specification: each value as a share of the
  total, times 100, to two decimals, when the total is positive, and 0.0 in every one of the
  \<open>n\<close> rows otherwise.\<close>

definition weight_pct :: "fval list \<Rightarrow> nat \<Rightarrow> fval list" where
  "weight_pct vals n =
     (if fgt (fsum vals) (Fin 0)
      then map (\<lambda>v. round2 (fmul (fdiv v (fsum vals)) (Fin 100))) vals
      else replicate n (Fin 0))"

text \<open>The columns each component writes.\<close>

definition metrics_writes :: "string list" where
  "metrics_writes = [''Current Value'', ''Current Weight (%)'']"

definition engine_writes :: "string list" where
  "engine_writes =
     [''Target Value'', ''Target Shares'', ''Target Value (Actual)'', ''Difference'',
      ''Action'', ''Shares to Buy/Sell'', ''Real Weight (%)'']"

text \<open>The derived fields of section 3 of the specification, from the columns the engine
  reads: current value \<open>cv\<close>, target weight \<open>tw\<close>, price \<open>pr\<close> and shares held.\<close>

definition tv_col :: "fval list \<Rightarrow> fval list \<Rightarrow> fval \<Rightarrow> fval list" where
  "tv_col cv tw cap = map (\<lambda>w. fmul (fdiv w (Fin 100)) (fadd (fsum cv) cap)) tw"

definition ts_col :: "fval list \<Rightarrow> fval list \<Rightarrow> fval list" where
  "ts_col pr tv = map (\<lambda>n. Fin (of_int n)) (map share_of (zip pr tv))"

definition tva_col :: "fval list \<Rightarrow> fval list \<Rightarrow> fval list" where
  "tva_col pr tv = map2 fmul (ts_col pr tv) pr"

definition diff_col :: "fval list \<Rightarrow> fval list \<Rightarrow> fval list \<Rightarrow> fval list" where
  "diff_col cv pr tv = map2 fsub (tva_col pr tv) cv"

text \<open>The table after the seven writes of the engine, before the columns are reordered.\<close>

definition engine_table ::
  "dataframe \<Rightarrow> fval \<Rightarrow> fval list \<Rightarrow> fval list \<Rightarrow> fval list \<Rightarrow> fval list \<Rightarrow> dataframe" where
  "engine_table df cap cv tw pr sh =
     (let tv = tv_col cv tw cap in
      set_col (set_col (set_col (set_col (set_col (set_col (set_col df
        ''Target Value'' (NumCol tv))
        ''Target Shares'' (NumCol (ts_col pr tv)))
        ''Target Value (Actual)'' (NumCol (tva_col pr tv)))
        ''Difference'' (NumCol (diff_col cv pr tv)))
        ''Action'' (StrCol (map (\<lambda>x. Some (action_of x)) (diff_col cv pr tv))))
        ''Shares to Buy/Sell'' (NumCol (map2 fsub (ts_col pr tv) sh)))
        ''Real Weight (%)'' (NumCol (weight_pct (tva_col pr tv) (nrows df))))"

text \<open>The table after the two writes of the Metrics Calculator.\<close>

definition metrics_table :: "dataframe \<Rightarrow> fval list \<Rightarrow> fval list \<Rightarrow> dataframe" where
  "metrics_table df sh pr =
     set_col (set_col df ''Current Value'' (NumCol (map2 fmul sh pr)))
       ''Current Weight (%)'' (NumCol (weight_pct (map2 fmul sh pr) (nrows df)))"

text \<open>The four checks of the Validator as the specification lists them, each giving no
  message or one.  A comparison with 0 is possible on a column that holds no string cell.\<close>

definition required_columns :: "string list" where
  "required_columns = [''Ticker'', ''Shares Held'', ''Target Weight (%)'']"

definition missing_message :: "dataframe \<Rightarrow> string list" where
  "missing_message df =
     (if list_all (\<lambda>c. c \<in> set (columns df)) required_columns then []
      else [''Missing required columns: ''
              @ py_repr_list (filter (\<lambda>c. c \<notin> set (columns df)) required_columns)])"

definition negative_message :: "dataframe \<Rightarrow> string \<Rightarrow> string \<Rightarrow> string list" where
  "negative_message df name msg =
     (case get_col df name of
        Inr (NumCol xs) \<Rightarrow> if list_ex (\<lambda>x. flt x (Fin 0)) xs then [msg] else []
      | _ \<Rightarrow> [])"

definition ticker_message :: "dataframe \<Rightarrow> string list" where
  "ticker_message df =
     (case get_col df ''Ticker'' of
        Inr (StrCol xs) \<Rightarrow>
          if list_ex (\<lambda>x. x = None \<or> x = Some []) xs
          then [''Ticker symbols cannot be empty''] else []
      | Inr (NumCol xs) \<Rightarrow>
          if list_ex (\<lambda>x. x = NaN) xs then [''Ticker symbols cannot be empty''] else []
      | Inl _ \<Rightarrow> [])"

definition no_string_cell :: "dataframe \<Rightarrow> string \<Rightarrow> bool" where
  "no_string_cell df name =
     (case get_col df name of
        Inr (StrCol xs) \<Rightarrow> list_all (\<lambda>x. x = None) xs
      | _ \<Rightarrow> True)"

section \<open>Notions for the float64 embedding\<close>

text \<open>A row on which \<open>round\<close> raises: the price is positive and the float64 quotient is
  NaN or infinite.  The share count of a row.\<close>

fun finite64 :: "f64 \<Rightarrow> bool" where
  "finite64 (FNum q) = True"
| "finite64 _ = False"

definition raises_row_fp :: "arith \<Rightarrow> f64 \<times> f64 \<Rightarrow> bool" where
  "raises_row_fp A r = (pos64 (fst r) \<and> \<not> finite64 (div64 A (snd r) (fst r)))"

definition share_of_fp :: "arith \<Rightarrow> f64 \<times> f64 \<Rightarrow> int" where
  "share_of_fp A r =
     (if pos64 (fst r)
      then (case div64 A (snd r) (fst r) of FNum q \<Rightarrow> py_round q | _ \<Rightarrow> 0)
      else 0)"

text \<open>The derived columns, with the arithmetic as a parameter.\<close>

definition weight_pct_fp :: "arith \<Rightarrow> f64 list \<Rightarrow> nat \<Rightarrow> f64 list" where
  "weight_pct_fp A vals n =
     (if pos64 (sum64 A vals)
      then map (\<lambda>v. round2_64 A (mul64 A (div64 A v (sum64 A vals)) (FNum 100))) vals
      else replicate n (FNum 0))"

definition tv_col_fp :: "arith \<Rightarrow> f64 list \<Rightarrow> f64 list \<Rightarrow> f64 \<Rightarrow> f64 list" where
  "tv_col_fp A cv tw cap =
     map (\<lambda>w. mul64 A (div64 A w (FNum 100)) (add64 A (sum64 A cv) cap)) tw"

definition ts_col_fp :: "arith \<Rightarrow> f64 list \<Rightarrow> f64 list \<Rightarrow> f64 list" where
  "ts_col_fp A pr tv = map (\<lambda>n. FNum (of_int n)) (map (share_of_fp A) (zip pr tv))"

definition tva_col_fp :: "arith \<Rightarrow> f64 list \<Rightarrow> f64 list \<Rightarrow> f64 list" where
  "tva_col_fp A pr tv = map2 (mul64 A) (ts_col_fp A pr tv) pr"

definition diff_col_fp :: "arith \<Rightarrow> f64 list \<Rightarrow> f64 list \<Rightarrow> f64 list \<Rightarrow> f64 list" where
  "diff_col_fp A cv pr tv = map2 (sub64 A) (tva_col_fp A pr tv) cv"

definition engine_table_fp ::
  "arith \<Rightarrow> f64 frame \<Rightarrow> f64 \<Rightarrow> f64 list \<Rightarrow> f64 list \<Rightarrow> f64 list \<Rightarrow> f64 list
     \<Rightarrow> f64 frame" where
  "engine_table_fp A df cap cv tw pr sh =
     (let tv = tv_col_fp A cv tw cap in
      set_col (set_col (set_col (set_col (set_col (set_col (set_col df
        ''Target Value'' (NumCol tv))
        ''Target Shares'' (NumCol (ts_col_fp A pr tv)))
        ''Target Value (Actual)'' (NumCol (tva_col_fp A pr tv)))
        ''Difference'' (NumCol (diff_col_fp A cv pr tv)))
        ''Action'' (StrCol (map (\<lambda>x. Some (action_of_fp x)) (diff_col_fp A cv pr tv))))
        ''Shares to Buy/Sell'' (NumCol (map2 (sub64 A) (ts_col_fp A pr tv) sh)))
        ''Real Weight (%)'' (NumCol (weight_pct_fp A (tva_col_fp A pr tv) (nrows df))))"

definition metrics_table_fp :: "arith \<Rightarrow> f64 frame \<Rightarrow> f64 list \<Rightarrow> f64 list \<Rightarrow> f64 frame" where
  "metrics_table_fp A df sh pr =
     set_col (set_col df ''Current Value'' (NumCol (map2 (mul64 A) sh pr)))
       ''Current Weight (%)''
       (NumCol (weight_pct_fp A (map2 (mul64 A) sh pr) (nrows df)))"

text \<open>The specification's rounding to two decimals, said of a result \<open>w\<close> and a value
  \<open>x\<close>: when 100 times \<open>x\<close> is the finite number \<open>y\<close>, \<open>w\<close> is an integer nearest to
  \<open>y\<close>, the even one at a tie, divided by 100; when it is NaN or infinite, so is what is
  divided by 100.\<close>

definition two_decimals :: "arith \<Rightarrow> f64 \<Rightarrow> f64 \<Rightarrow> bool" where
  "two_decimals A x w =
     (case mul64 A x (FNum 100) of
        FNum y \<Rightarrow> (\<exists>k. nearest_half_even y k \<and> w = div64 A (FNum (of_int k)) (FNum 100))
      | s \<Rightarrow> w = div64 A s (FNum 100))"

text \<open>A table of the first embedding as a table of float64 cells.\<close>

fun to64 :: "fval \<Rightarrow> f64" where
  "to64 NaN = FNaN"
| "to64 (Fin a) = FNum a"

fun series64 :: "fval series \<Rightarrow> f64 series" where
  "series64 (NumCol xs) = NumCol (map to64 xs)"
| "series64 (StrCol ys) = StrCol ys"

definition frame64 :: "fval frame \<Rightarrow> f64 frame" where
  "frame64 df = \<lparr>nrows = nrows df, cols = map (\<lambda>p. (fst p, series64 (snd p))) (cols df)\<rparr>"

section \<open>Tables used as examples\<close>

text \<open>Two holdings whose prices are both 0, already carrying their current value.\<close>

definition zero_priced :: dataframe where
  "zero_priced = \<lparr>nrows = 2, cols =
     [(''Ticker'', StrCol [Some ''AAA'', Some ''BBB'']),
      (''Shares Held'', NumCol [Fin 10, Fin 5]),
      (''Target Weight (%)'', NumCol [Fin 50, Fin 50]),
      (''Current Price (per share)'', NumCol [Fin 0, Fin 0]),
      (''Current Value'', NumCol [Fin 0, Fin 0])]\<rparr>"

text \<open>The three holdings of the end-to-end scenario, with their prices attached.\<close>

definition fixture :: dataframe where
  "fixture = \<lparr>nrows = 3, cols =
     [(''Ticker'', StrCol [Some ''TCS'', Some ''INFY'', Some ''HDFC'']),
      (''Shares Held'', NumCol [Fin 10, Fin 20, Fin 12]),
      (''Target Weight (%)'', NumCol [Fin 25, Fin 50, Fin 25]),
      (''Current Price (per share)'', NumCol [Fin 100, Fin 50, Fin 80])]\<rparr>"

text \<open>The scenario's table after the Metrics Calculator, and the tables the engine returns
  for it with additional capital 0 and 1000.\<close>

definition fixture_enriched :: dataframe where
  "fixture_enriched = \<lparr>nrows = 3, cols =
     [(''Ticker'', StrCol [Some ''TCS'', Some ''INFY'', Some ''HDFC'']),
      (''Shares Held'', NumCol [Fin 10, Fin 20, Fin 12]),
      (''Target Weight (%)'', NumCol [Fin 25, Fin 50, Fin 25]),
      (''Current Price (per share)'', NumCol [Fin 100, Fin 50, Fin 80]),
      (''Current Value'', NumCol [Fin 1000, Fin 1000, Fin 960]),
      (''Current Weight (%)'', NumCol [Fin (3378 / 100), Fin (3378 / 100), Fin (3243 / 100)])]\<rparr>"

definition fixture_rebalanced :: dataframe where
  "fixture_rebalanced = \<lparr>nrows = 3, cols =
     [(''Ticker'', StrCol [Some ''TCS'', Some ''INFY'', Some ''HDFC'']),
      (''Shares Held'', NumCol [Fin 10, Fin 20, Fin 12]),
      (''Current Price (per share)'', NumCol [Fin 100, Fin 50, Fin 80]),
      (''Current Weight (%)'', NumCol [Fin (3378 / 100), Fin (3378 / 100), Fin (3243 / 100)]),
      (''Current Value'', NumCol [Fin 1000, Fin 1000, Fin 960]),
      (''Target Weight (%)'', NumCol [Fin 25, Fin 50, Fin 25]),
      (''Target Value'', NumCol [Fin 740, Fin 1480, Fin 740]),
      (''Target Shares'', NumCol [Fin 7, Fin 30, Fin 9]),
      (''Target Value (Actual)'', NumCol [Fin 700, Fin 1500, Fin 720]),
      (''Difference'', NumCol [Fin (- 300), Fin 500, Fin (- 240)]),
      (''Action'', StrCol [Some ''Sell'', Some ''Buy'', Some ''Sell'']),
      (''Shares to Buy/Sell'', NumCol [Fin (- 3), Fin 10, Fin (- 3)]),
      (''Real Weight (%)'', NumCol [Fin (2397 / 100), Fin (5137 / 100), Fin (2466 / 100)])]\<rparr>"

definition fixture_rebalanced_1000 :: dataframe where
  "fixture_rebalanced_1000 = \<lparr>nrows = 3, cols =
     [(''Ticker'', StrCol [Some ''TCS'', Some ''INFY'', Some ''HDFC'']),
      (''Shares Held'', NumCol [Fin 10, Fin 20, Fin 12]),
      (''Current Price (per share)'', NumCol [Fin 100, Fin 50, Fin 80]),
      (''Current Weight (%)'', NumCol [Fin (3378 / 100), Fin (3378 / 100), Fin (3243 / 100)]),
      (''Current Value'', NumCol [Fin 1000, Fin 1000, Fin 960]),
      (''Target Weight (%)'', NumCol [Fin 25, Fin 50, Fin 25]),
      (''Target Value'', NumCol [Fin 990, Fin 1980, Fin 990]),
      (''Target Shares'', NumCol [Fin 10, Fin 40, Fin 12]),
      (''Target Value (Actual)'', NumCol [Fin 1000, Fin 2000, Fin 960]),
      (''Difference'', NumCol [Fin 0, Fin 1000, Fin 0]),
      (''Action'', StrCol [Some ''Hold'', Some ''Buy'', Some ''Hold'']),
      (''Shares to Buy/Sell'', NumCol [Fin 0, Fin 20, Fin 0]),
      (''Real Weight (%)'', NumCol [Fin (2525 / 100), Fin (5051 / 100), Fin (2424 / 100)])]\<rparr>"

text \<open>Two holdings, the first without a price; the table after the Metrics Calculator and
  the table the engine returns for it with no additional capital.\<close>

definition missing_price :: dataframe where
  "missing_price = \<lparr>nrows = 2, cols =
     [(''Ticker'', StrCol [Some ''AAA'', Some ''BBB'']),
      (''Shares Held'', NumCol [Fin 10, Fin 10]),
      (''Target Weight (%)'', NumCol [Fin 50, Fin 50]),
      (''Current Price (per share)'', NumCol [NaN, Fin 100])]\<rparr>"

definition missing_price_enriched :: dataframe where
  "missing_price_enriched = \<lparr>nrows = 2, cols =
     [(''Ticker'', StrCol [Some ''AAA'', Some ''BBB'']),
      (''Shares Held'', NumCol [Fin 10, Fin 10]),
      (''Target Weight (%)'', NumCol [Fin 50, Fin 50]),
      (''Current Price (per share)'', NumCol [NaN, Fin 100]),
      (''Current Value'', NumCol [NaN, Fin 1000]),
      (''Current Weight (%)'', NumCol [NaN, Fin 100])]\<rparr>"

definition missing_price_rebalanced :: dataframe where
  "missing_price_rebalanced = \<lparr>nrows = 2, cols =
     [(''Ticker'', StrCol [Some ''AAA'', Some ''BBB'']),
      (''Shares Held'', NumCol [Fin 10, Fin 10]),
      (''Current Price (per share)'', NumCol [NaN, Fin 100]),
      (''Current Weight (%)'', NumCol [NaN, Fin 100]),
      (''Current Value'', NumCol [NaN, Fin 1000]),
      (''Target Weight (%)'', NumCol [Fin 50, Fin 50]),
      (''Target Value'', NumCol [Fin 500, Fin 500]),
      (''Target Shares'', NumCol [Fin 0, Fin 5]),
      (''Target Value (Actual)'', NumCol [NaN, Fin 500]),
      (''Difference'', NumCol [NaN, Fin (- 500)]),
      (''Action'', StrCol [Some ''Hold'', Some ''Sell'']),
      (''Shares to Buy/Sell'', NumCol [Fin (- 10), Fin (- 5)]),
      (''Real Weight (%)'', NumCol [NaN, Fin 100])]\<rparr>"

text \<open>Tables for the Validator: one short position among valid rows, a table that has
  only the ticker column, and a table whose shares are text.\<close>

definition short_position :: dataframe where
  "short_position = \<lparr>nrows = 2, cols =
     [(''Ticker'', StrCol [Some ''TCS'', Some ''INFY'']),
      (''Shares Held'', NumCol [Fin (- 5), Fin 20]),
      (''Target Weight (%)'', NumCol [Fin 40, Fin 60])]\<rparr>"

definition only_ticker :: dataframe where
  "only_ticker = \<lparr>nrows = 1, cols = [(''Ticker'', StrCol [Some ''TCS''])]\<rparr>"

definition text_shares :: dataframe where
  "text_shares = \<lparr>nrows = 1, cols =
     [(''Ticker'', StrCol [Some ''TCS'']),
      (''Shares Held'', StrCol [Some ''ten'']),
      (''Target Weight (%)'', NumCol [Fin 100])]\<rparr>"

text \<open>The enriched scenario table with two further columns among the canonical ones.\<close>

definition annotated :: dataframe where
  "annotated = \<lparr>nrows = 3, cols =
     [(''Sector'', StrCol [Some ''IT'', Some ''IT'', Some ''Bank'']),
      (''Ticker'', StrCol [Some ''TCS'', Some ''INFY'', Some ''HDFC'']),
      (''Shares Held'', NumCol [Fin 10, Fin 20, Fin 12]),
      (''Broker'', StrCol [Some ''A'', None, Some ''B'']),
      (''Target Weight (%)'', NumCol [Fin 25, Fin 50, Fin 25]),
      (''Current Price (per share)'', NumCol [Fin 100, Fin 50, Fin 80]),
      (''Current Value'', NumCol [Fin 1000, Fin 1000, Fin 960]),
      (''Current Weight (%)'', NumCol [Fin (3378 / 100), Fin (3378 / 100), Fin (3243 / 100)])]\<rparr>"

section \<open>Rounding\<close>

lemma bind_res_simps [simp]:
  "bind_res (Inl e) f = Inl e"
  "bind_res (Inr x) f = f x"
  by (simp_all add: bind_res_def)

lemma floor_bounds: "of_int \<lfloor>q\<rfloor> \<le> (q::rat) \<and> q < of_int \<lfloor>q\<rfloor> + 1"
  by linarith

lemma py_round_nearest: "nearest_half_even q (py_round q)"
proof -
  define f where "f = \<lfloor>q\<rfloor>"
  define d where "d = q - of_int f"
  have fb: "0 \<le> d" "d < 1"
    using floor_bounds [of q] by (simp_all add: d_def f_def)
  have q: "q = of_int f + d" by (simp add: d_def)
  consider "d < 1 / 2" | "1 / 2 < d" | "d = 1 / 2" by linarith
  then show ?thesis
  proof cases
    case 1
    then have r: "py_round q = f" by (simp add: py_round_def Let_def f_def d_def)
    have "nearest_half_even q f" using 1 fb q by (simp add: nearest_half_even_def)
    with r show ?thesis by simp
  next
    case 2
    then have r: "py_round q = f + 1" by (simp add: py_round_def Let_def f_def d_def)
    have "nearest_half_even q (f + 1)" using 2 fb q by (simp add: nearest_half_even_def)
    with r show ?thesis by simp
  next
    case 3
    then have r: "py_round q = (if even f then f else f + 1)"
      by (simp add: py_round_def Let_def f_def d_def)
    have "nearest_half_even q (if even f then f else f + 1)"
      using 3 q by (simp add: nearest_half_even_def)
    with r show ?thesis by simp
  qed
qed

lemma nearest_half_even_unique:
  assumes "nearest_half_even q n"
  shows "n = py_round q"
proof -
  define f where "f = \<lfloor>q\<rfloor>"
  define d where "d = q - of_int f"
  have fb: "0 \<le> d" "d < 1"
    using floor_bounds [of q] by (simp_all add: d_def f_def)
  have q: "q = of_int f + d" by (simp add: d_def)
  from assms have near: "\<bar>of_int n - q\<bar> \<le> 1 / 2"
    and tie: "\<bar>of_int n - q\<bar> = 1 / 2 \<Longrightarrow> even n"
    by (simp_all add: nearest_half_even_def)
  have "of_int f - 1 < (of_int n :: rat)" "(of_int n :: rat) < of_int f + 2"
    using near fb q by linarith+
  then have "f - 1 < n" "n < f + 2"
    by (metis of_int_less_iff of_int_diff of_int_1, metis of_int_less_iff of_int_add of_int_numeral)
  then consider "n = f" | "n = f + 1" by linarith
  then show ?thesis
  proof cases
    case 1
    have dle: "d \<le> 1 / 2" using near q 1 fb by simp
    show ?thesis
    proof (cases "d < 1 / 2")
      case True
      then show ?thesis using 1 by (simp add: py_round_def Let_def f_def d_def)
    next
      case False
      with dle have deq: "d = 1 / 2" by simp
      then have "even n" using tie q 1 by simp
      then show ?thesis using 1 deq by (simp add: py_round_def Let_def f_def d_def)
    qed
  next
    case 2
    have dge: "1 / 2 \<le> d" using near q 2 fb by simp
    show ?thesis
    proof (cases "1 / 2 < d")
      case True
      then show ?thesis using 2 by (simp add: py_round_def Let_def f_def d_def)
    next
      case False
      with dge have deq: "d = 1 / 2" by simp
      then have "even n" using tie q 2 by simp
      then have "odd f" using 2 by simp
      then show ?thesis using 2 deq by (simp add: py_round_def Let_def f_def d_def)
    qed
  qed
qed

lemma optimize_loop_char:
  "optimize_loop acc xs =
     (if list_ex raises_row xs then Inl ValueError else Inr (acc @ map share_of xs))"
proof (induction xs arbitrary: acc)
  case Nil
  then show ?case by simp
next
  case (Cons x xs)
  obtain p t where x: "x = (p, t)" by (cases x)
  show ?case
    by (simp add: x Cons.IH raises_row_def share_of_def split: fval.splits)
qed

lemma optimize_shares_char:
  "optimize_shares prices targets =
     (if list_ex raises_row (zip prices targets) then Inl ValueError
      else Inr (map share_of (zip prices targets)))"
  by (simp add: optimize_shares_def optimize_loop_char)

section \<open>Share optimization: the rounding rule and the price guard\<close>

lemma share_of_priced:
  "0 < p \<Longrightarrow> share_of (Fin p, Fin t) = py_round (t / p)"
  by (simp add: share_of_def)

lemma share_of_unpriced:
  "\<not> fgt p (Fin 0) \<Longrightarrow> share_of (p, t) = 0"
  by (simp add: share_of_def)

lemma not_fgt_zero_iff:
  "\<not> fgt x (Fin 0) \<longleftrightarrow> x = NaN \<or> (\<exists>a. x = Fin a \<and> a \<le> 0)"
  by (cases x) auto



section \<open>Reading and writing columns\<close>

lemma nrows_set_col [simp]: "nrows (set_col df a c) = nrows df"
  by (simp add: set_col_def)

lemma get_col_set_col [simp]:
  "get_col (set_col df a c) b = (if b = a then Inr c else get_col df b)"
  by (simp add: get_col_def set_col_def update_conv')

lemma get_num_set_col [simp]:
  "get_num (set_col df a c) b =
     (if b = a then (case c of NumCol xs \<Rightarrow> Inr xs | StrCol ys \<Rightarrow> Inl TypeError)
      else get_num df b)"
  by (simp add: get_num_def)

lemma columns_set_col:
  "columns (set_col df a c) = columns df @ filter (\<lambda>x. x \<notin> set (columns df)) [a]"
  by (simp add: columns_def set_col_def update_keys)

lemma set_col_same: "get_col df a = Inr c \<Longrightarrow> set_col df a c = df"
  by (simp add: get_col_def set_col_def update_triv split: option.splits)

lemma get_num_col: "get_num df a = Inr xs \<longleftrightarrow> get_col df a = Inr (NumCol xs)"
  by (cases "get_col df a") (auto simp: get_num_def split: series.splits)

lemma get_col_in_columns: "get_col df a = Inr c \<Longrightarrow> a \<in> set (columns df)"
  by (auto simp: get_col_def columns_def split: option.splits dest: map_of_SomeD intro: rev_image_eqI)

lemma in_columns_get_col: "a \<in> set (columns df) \<Longrightarrow> \<exists>c. get_col df a = Inr c"
  by (cases "map_of (cols df) a") (auto simp: get_col_def columns_def map_of_eq_None_iff)

lemma wf_col_len:
  assumes "wf_df df" and "get_col df a = Inr c"
  shows "col_len c = nrows df"
proof -
  from assms(2) have "(a, c) \<in> set (cols df)"
    by (auto simp: get_col_def split: option.splits dest: map_of_SomeD)
  with assms(1) show ?thesis
    by (auto simp: wf_df_def list_all_iff)
qed

lemma wf_num_len: "wf_df df \<Longrightarrow> get_num df a = Inr xs \<Longrightarrow> length xs = nrows df"
  using wf_col_len [of df a "NumCol xs"] by (simp add: get_num_col)

lemma set_update_subset:
  "set (AList.update a c al) \<subseteq> insert (a, c) (set al)"
  by (induction al) auto

lemma wf_set_col:
  assumes "wf_df df" and "col_len c = nrows df"
  shows "wf_df (set_col df a c)"
proof -
  have d: "distinct (map fst (AList.update a c (cols df)))"
    using assms(1) by (simp add: wf_df_def columns_def distinct_update)
  have "\<forall>p \<in> set (AList.update a c (cols df)). col_len (snd p) = nrows df"
    using assms set_update_subset [of a c "cols df"]
    by (auto simp: wf_df_def list_all_iff)
  with d show ?thesis
    by (simp add: wf_df_def columns_def set_col_def list_all_iff)
qed

lemma metrics_run:
  assumes "get_num df ''Shares Held'' = Inr sh"
    and "get_num df ''Current Price (per share)'' = Inr pr"
    and "get_num df ''Target Weight (%)'' = Inr tw"
  shows "calculate_portfolio_metrics df =
           Inr ((fsum (map2 fmul sh pr),
                 round2 (fsum (weight_pct (map2 fmul sh pr) (nrows df))),
                 round2 (fsum tw)),
                metrics_table df sh pr)"
  using assms
  by (simp add: calculate_portfolio_metrics_def metrics_table_def weight_pct_def Let_def)

section \<open>Column reordering\<close>

lemma select_cols_run:
  "set names \<subseteq> set (columns df) \<Longrightarrow>
     select_cols df names = Inr (map (\<lambda>n. (n, the (map_of (cols df) n))) names)"
proof (induction names)
  case Nil
  then show ?case by simp
next
  case (Cons n ns)
  then obtain c where c: "get_col df n = Inr c"
    using in_columns_get_col [of n df] by auto
  then have "map_of (cols df) n = Some c"
    by (simp add: get_col_def split: option.splits)
  with Cons c show ?case by simp
qed

lemma map_of_select:
  assumes "set names = fst ` set al"
  shows "map_of (map (\<lambda>n. (n, the (map_of al n))) names) c = map_of al c"
proof (cases "c \<in> set names")
  case True
  with assms obtain v where "map_of al c = Some v"
    by (cases "map_of al c") (auto simp: map_of_eq_None_iff)
  with True show ?thesis
    by (simp add: map_of_map_restrict restrict_map_def)
next
  case False
  with assms have "map_of al c = None"
    by (simp add: map_of_eq_None_iff)
  with False show ?thesis
    by (simp add: map_of_map_restrict restrict_map_def)
qed

lemma final_order_eq:
  "filter (\<lambda>col. col \<notin> set (filter (\<lambda>col. col \<in> set cs) order)) cs
     = filter (\<lambda>col. col \<notin> set order) cs"
  by (rule filter_cong) auto

lemma reorder_run:
  "\<exists>out. reorder_rebalanced_columns df = Inr out
     \<and> nrows out = nrows df
     \<and> columns out = filter (\<lambda>c. c \<in> set (columns df)) column_order
                        @ filter (\<lambda>c. c \<notin> set column_order) (columns df)
     \<and> (\<forall>c. get_col out c = get_col df c)"
proof -
  let ?names = "filter (\<lambda>c. c \<in> set (columns df)) column_order
                 @ filter (\<lambda>c. c \<notin> set column_order) (columns df)"
  let ?out = "\<lparr>nrows = nrows df, cols = map (\<lambda>n. (n, the (map_of (cols df) n))) ?names\<rparr>"
  have names: "set ?names = set (columns df)" by auto
  then have sel: "select_cols df ?names = Inr (cols ?out)"
    using select_cols_run [of ?names df] by simp
  have run: "reorder_rebalanced_columns df = Inr ?out"
    unfolding reorder_rebalanced_columns_def Let_def final_order_eq select_def sel
    by simp
  have cols: "columns ?out = ?names"
    by (simp add: columns_def comp_def)
  have "map_of (cols ?out) c = map_of (cols df) c" for c
    using map_of_select [of ?names "cols df" c] names
    by (simp only: columns_def frame.simps set_map)
  then have get: "\<forall>c. get_col ?out c = get_col df c"
    by (simp add: get_col_def)
  from run cols get show ?thesis
    by (intro exI [of _ ?out]) simp
qed

section \<open>The runs of the engine\<close>

lemma engine_run:
  assumes "get_num df ''Current Value'' = Inr cv"
    and "get_num df ''Target Weight (%)'' = Inr tw"
    and "get_num df ''Current Price (per share)'' = Inr pr"
    and "get_num df ''Shares Held'' = Inr sh"
    and "\<not> list_ex raises_row (zip pr (tv_col cv tw cap))"
  shows "calculate_rebalancing_metrics df cap =
           bind_res (reorder_rebalanced_columns (engine_table df cap cv tw pr sh))
             (\<lambda>out. Inr (out, engine_table df cap cv tw pr sh))"
  using assms unfolding engine_table_def diff_col_def tva_col_def ts_col_def Let_def
  by (simp add: calculate_rebalancing_metrics_def optimize_shares_char weight_pct_def Let_def
      flip: tv_col_def)

lemma engine_raises:
  assumes "get_num df ''Current Value'' = Inr cv"
    and "get_num df ''Target Weight (%)'' = Inr tw"
    and "get_num df ''Current Price (per share)'' = Inr pr"
    and "list_ex raises_row (zip pr (tv_col cv tw cap))"
  shows "calculate_rebalancing_metrics df cap = Inl ValueError"
  using assms
  by (simp add: calculate_rebalancing_metrics_def optimize_shares_char Let_def
      flip: tv_col_def)

lemma columns_writes:
  "distinct (map fst ws) \<Longrightarrow>
     columns (foldl (\<lambda>d p. set_col d (fst p) (snd p)) df ws)
       = columns df @ filter (\<lambda>x. x \<notin> set (columns df)) (map fst ws)"
proof (induction ws rule: rev_induct)
  case Nil
  then show ?case by simp
next
  case (snoc w ws)
  then have "fst w \<notin> fst ` set ws" and "distinct (map fst ws)"
    by simp_all
  with snoc.IH show ?case
    by (auto simp: columns_set_col)
qed

lemma columns_engine_table:
  "columns (engine_table df cap cv tw pr sh)
     = columns df @ filter (\<lambda>c. c \<notin> set (columns df)) engine_writes"
  using columns_writes [of
     "[(''Target Value'', NumCol (tv_col cv tw cap)),
       (''Target Shares'', NumCol (ts_col pr (tv_col cv tw cap))),
       (''Target Value (Actual)'', NumCol (tva_col pr (tv_col cv tw cap))),
       (''Difference'', NumCol (diff_col cv pr (tv_col cv tw cap))),
       (''Action'', StrCol (map (\<lambda>x. Some (action_of x)) (diff_col cv pr (tv_col cv tw cap)))),
       (''Shares to Buy/Sell'', NumCol (map2 fsub (ts_col pr (tv_col cv tw cap)) sh)),
       (''Real Weight (%)'', NumCol (weight_pct (tva_col pr (tv_col cv tw cap)) (nrows df)))]" df]
  unfolding engine_table_def Let_def engine_writes_def
  by (simp del: filter.simps)

lemma columns_metrics_table:
  "columns (metrics_table df sh pr)
     = columns df @ filter (\<lambda>c. c \<notin> set (columns df)) metrics_writes"
  using columns_writes [of
     "[(''Current Value'', NumCol (map2 fmul sh pr)),
       (''Current Weight (%)'', NumCol (weight_pct (map2 fmul sh pr) (nrows df)))]" df]
  unfolding metrics_table_def metrics_writes_def
  by (simp del: filter.simps)

lemma engine_table_frame:
  "c \<notin> set engine_writes \<Longrightarrow> get_col (engine_table df cap cv tw pr sh) c = get_col df c"
  by (simp add: engine_table_def Let_def engine_writes_def)

lemma metrics_table_frame:
  "c \<notin> set metrics_writes \<Longrightarrow> get_col (metrics_table df sh pr) c = get_col df c"
  by (simp add: metrics_table_def metrics_writes_def)

lemma nrows_engine_table [simp]: "nrows (engine_table df cap cv tw pr sh) = nrows df"
  by (simp add: engine_table_def Let_def)

lemma nrows_metrics_table [simp]: "nrows (metrics_table df sh pr) = nrows df"
  by (simp add: metrics_table_def)

lemma engine_table_cols:
  "get_num (engine_table df cap cv tw pr sh) ''Target Value'' = Inr (tv_col cv tw cap)"
  "get_num (engine_table df cap cv tw pr sh) ''Target Shares''
     = Inr (ts_col pr (tv_col cv tw cap))"
  "get_num (engine_table df cap cv tw pr sh) ''Target Value (Actual)''
     = Inr (tva_col pr (tv_col cv tw cap))"
  "get_num (engine_table df cap cv tw pr sh) ''Difference''
     = Inr (diff_col cv pr (tv_col cv tw cap))"
  "get_col (engine_table df cap cv tw pr sh) ''Action''
     = Inr (StrCol (map (\<lambda>x. Some (action_of x)) (diff_col cv pr (tv_col cv tw cap))))"
  "get_num (engine_table df cap cv tw pr sh) ''Shares to Buy/Sell''
     = Inr (map2 fsub (ts_col pr (tv_col cv tw cap)) sh)"
  "get_num (engine_table df cap cv tw pr sh) ''Real Weight (%)''
     = Inr (weight_pct (tva_col pr (tv_col cv tw cap)) (nrows df))"
  by (simp_all add: engine_table_def Let_def)

lemma metrics_table_cols:
  "get_num (metrics_table df sh pr) ''Current Value'' = Inr (map2 fmul sh pr)"
  "get_num (metrics_table df sh pr) ''Current Weight (%)''
     = Inr (weight_pct (map2 fmul sh pr) (nrows df))"
  by (simp_all add: metrics_table_def)

lemma engine_success:
  assumes "get_num df ''Current Value'' = Inr cv"
    and "get_num df ''Target Weight (%)'' = Inr tw"
    and "get_num df ''Current Price (per share)'' = Inr pr"
    and "get_num df ''Shares Held'' = Inr sh"
    and "\<not> list_ex raises_row (zip pr (tv_col cv tw cap))"
  shows "\<exists>out. calculate_rebalancing_metrics df cap
                  = Inr (out, engine_table df cap cv tw pr sh)
     \<and> nrows out = nrows df
     \<and> columns out
         = filter (\<lambda>c. c \<in> set (columns (engine_table df cap cv tw pr sh))) column_order
           @ filter (\<lambda>c. c \<notin> set column_order) (columns (engine_table df cap cv tw pr sh))
     \<and> (\<forall>c. get_col out c = get_col (engine_table df cap cv tw pr sh) c)"
proof -
  obtain out where out: "reorder_rebalanced_columns (engine_table df cap cv tw pr sh) = Inr out"
    "nrows out = nrows (engine_table df cap cv tw pr sh)"
    "columns out
       = filter (\<lambda>c. c \<in> set (columns (engine_table df cap cv tw pr sh))) column_order
         @ filter (\<lambda>c. c \<notin> set column_order) (columns (engine_table df cap cv tw pr sh))"
    "\<forall>c. get_col out c = get_col (engine_table df cap cv tw pr sh) c"
    using reorder_run [of "engine_table df cap cv tw pr sh"] by blast
  have "calculate_rebalancing_metrics df cap = Inr (out, engine_table df cap cv tw pr sh)"
    by (simp add: engine_run [OF assms] out(1))
  with out show ?thesis by auto
qed

section \<open>Weights and the zero guard\<close>

lemma length_tv_col [simp]: "length (tv_col cv tw cap) = length tw"
  by (simp add: tv_col_def)

lemma length_ts_col [simp]: "length (ts_col pr tv) = min (length pr) (length tv)"
  by (simp add: ts_col_def)

lemma length_tva_col [simp]: "length (tva_col pr tv) = min (length pr) (length tv)"
  by (simp add: tva_col_def)

lemma length_diff_col [simp]:
  "length (diff_col cv pr tv) = min (min (length pr) (length tv)) (length cv)"
  by (simp add: diff_col_def)

lemma nth_ts_col:
  "i < length pr \<Longrightarrow> i < length tv \<Longrightarrow>
     ts_col pr tv ! i = Fin (of_int (share_of (pr ! i, tv ! i)))"
  by (simp add: ts_col_def)

lemma nth_tva_col:
  "i < length pr \<Longrightarrow> i < length tv \<Longrightarrow>
     tva_col pr tv ! i = fmul (Fin (of_int (share_of (pr ! i, tv ! i)))) (pr ! i)"
  by (simp add: tva_col_def nth_ts_col)

lemma nth_diff_col:
  "i < length pr \<Longrightarrow> i < length tv \<Longrightarrow> i < length cv \<Longrightarrow>
     diff_col cv pr tv ! i = fsub (tva_col pr tv ! i) (cv ! i)"
  by (simp add: diff_col_def)

lemma nth_tv_col:
  "i < length tw \<Longrightarrow>
     tv_col cv tw cap ! i = fmul (fdiv (tw ! i) (Fin 100)) (fadd (fsum cv) cap)"
  by (simp add: tv_col_def)

section \<open>Idempotence of the Metrics Calculator\<close>

lemma metrics_table_again:
  assumes "get_num df ''Shares Held'' = Inr sh"
    and "get_num df ''Current Price (per share)'' = Inr pr"
  shows "metrics_table (metrics_table df sh pr) sh pr = metrics_table df sh pr"
proof -
  let ?T = "metrics_table df sh pr"
  have cv: "get_col ?T ''Current Value'' = Inr (NumCol (map2 fmul sh pr))"
    by (simp add: metrics_table_def)
  have cw: "get_col ?T ''Current Weight (%)''
              = Inr (NumCol (weight_pct (map2 fmul sh pr) (nrows df)))"
    by (simp add: metrics_table_def)
  have "set_col ?T ''Current Value'' (NumCol (map2 fmul sh pr)) = ?T"
    by (rule set_col_same [OF cv])
  moreover have "set_col ?T ''Current Weight (%)''
                   (NumCol (weight_pct (map2 fmul sh pr) (nrows df))) = ?T"
    by (rule set_col_same [OF cw])
  ultimately show ?thesis
    by (simp add: metrics_table_def [of ?T])
qed

text \<open>
  Claim C7.  The Metrics Calculator is idempotent: it returns on every table with numeric
  shares, price and target-weight columns, and a second call on the table it left returns
  the same totals and leaves the same table, so the derived columns are identical.
\<close>

theorem metrics_idempotent:
  assumes "get_num df ''Shares Held'' = Inr sh"
    and "get_num df ''Current Price (per share)'' = Inr pr"
    and "get_num df ''Target Weight (%)'' = Inr tw"
  shows "\<exists>totals df'. calculate_portfolio_metrics df = Inr (totals, df')
           \<and> calculate_portfolio_metrics df' = Inr (totals, df')"
proof -
  let ?T = "metrics_table df sh pr"
  have reads: "get_num ?T ''Shares Held'' = Inr sh"
    "get_num ?T ''Current Price (per share)'' = Inr pr"
    "get_num ?T ''Target Weight (%)'' = Inr tw"
    using assms by (simp_all add: metrics_table_def)
  have "calculate_portfolio_metrics ?T
          = Inr ((fsum (map2 fmul sh pr),
                  round2 (fsum (weight_pct (map2 fmul sh pr) (nrows df))),
                  round2 (fsum tw)), ?T)"
    using metrics_run [OF reads] metrics_table_again [OF assms(1,2)] by simp
  with metrics_run [OF assms] show ?thesis by blast
qed

lemma fixture_reads:
  "get_num fixture ''Shares Held'' = Inr [Fin 10, Fin 20, Fin 12]"
  "get_num fixture ''Current Price (per share)'' = Inr [Fin 100, Fin 50, Fin 80]"
  "get_num fixture ''Target Weight (%)'' = Inr [Fin 25, Fin 50, Fin 25]"
  by (simp_all add: fixture_def get_num_def get_col_def)

theorem metrics_idempotent_witness:
  "get_num fixture ''Shares Held'' = Inr [Fin 10, Fin 20, Fin 12]
   \<and> get_num fixture ''Current Price (per share)'' = Inr [Fin 100, Fin 50, Fin 80]
   \<and> get_num fixture ''Target Weight (%)'' = Inr [Fin 25, Fin 50, Fin 25]
   \<and> (\<exists>totals df'. calculate_portfolio_metrics fixture = Inr (totals, df')
         \<and> calculate_portfolio_metrics df' = Inr (totals, df'))"
  using metrics_idempotent [OF fixture_reads] fixture_reads by blast

section \<open>Unpriced holdings\<close>

lemma action_of_NaN: "action_of NaN = ''Hold''"
  by (simp add: action_of_def)


lemma missing_price_enriched_reads:
  "get_num missing_price_enriched ''Current Value'' = Inr [NaN, Fin 1000]"
  "get_num missing_price_enriched ''Target Weight (%)'' = Inr [Fin 50, Fin 50]"
  "get_num missing_price_enriched ''Current Price (per share)'' = Inr [NaN, Fin 100]"
  "get_num missing_price_enriched ''Shares Held'' = Inr [Fin 10, Fin 10]"
  by (simp_all add: missing_price_enriched_def get_num_def get_col_def)

lemma wf_missing_price_enriched: "wf_df missing_price_enriched"
  by (simp add: wf_df_def columns_def missing_price_enriched_def)


section \<open>The end-to-end scenario\<close>

text \<open>
  Claim C1.  The end-to-end scenario: the Metrics Calculator on the three holdings, then the
  Rebalancing Engine with additional capital 0 and with additional capital 1000.
\<close>

theorem fixture_end_to_end:
  "calculate_portfolio_metrics fixture
     = Inr ((Fin 2960, Fin (9999 / 100), Fin 100), fixture_enriched)
   \<and> get_num fixture_enriched ''Current Value'' = Inr [Fin 1000, Fin 1000, Fin 960]
   \<and> get_num fixture_enriched ''Current Weight (%)''
       = Inr [Fin (3378 / 100), Fin (3378 / 100), Fin (3243 / 100)]
   \<and> map_sum id fst (calculate_rebalancing_metrics fixture_enriched (Fin 0))
       = Inr fixture_rebalanced
   \<and> get_num fixture_rebalanced ''Target Value'' = Inr [Fin 740, Fin 1480, Fin 740]
   \<and> get_num fixture_rebalanced ''Target Shares'' = Inr [Fin 7, Fin 30, Fin 9]
   \<and> get_col fixture_rebalanced ''Action''
       = Inr (StrCol [Some ''Sell'', Some ''Buy'', Some ''Sell''])
   \<and> fadd (Fin 2960) (Fin 1000) = Fin 3960
   \<and> map_sum id fst (calculate_rebalancing_metrics fixture_enriched (Fin 1000))
       = Inr fixture_rebalanced_1000
   \<and> get_num fixture_rebalanced_1000 ''Target Value'' = Inr [Fin 990, Fin 1980, Fin 990]
   \<and> get_num fixture_rebalanced_1000 ''Target Shares'' = Inr [Fin 10, Fin 40, Fin 12]"
proof -
  have 1: "calculate_portfolio_metrics fixture
             = Inr ((Fin 2960, Fin (9999 / 100), Fin 100), fixture_enriched)"
    by code_simp
  have 2: "get_num fixture_enriched ''Current Value'' = Inr [Fin 1000, Fin 1000, Fin 960]"
    by code_simp
  have 3: "get_num fixture_enriched ''Current Weight (%)''
             = Inr [Fin (3378 / 100), Fin (3378 / 100), Fin (3243 / 100)]"
    by code_simp
  have 4: "map_sum id fst (calculate_rebalancing_metrics fixture_enriched (Fin 0))
             = Inr fixture_rebalanced"
    by code_simp
  have 5: "get_num fixture_rebalanced ''Target Value'' = Inr [Fin 740, Fin 1480, Fin 740]"
    by code_simp
  have 6: "get_num fixture_rebalanced ''Target Shares'' = Inr [Fin 7, Fin 30, Fin 9]"
    by code_simp
  have 7: "get_col fixture_rebalanced ''Action''
             = Inr (StrCol [Some ''Sell'', Some ''Buy'', Some ''Sell''])"
    by code_simp
  have 8: "fadd (Fin 2960) (Fin 1000) = Fin 3960"
    by simp
  have 9: "map_sum id fst (calculate_rebalancing_metrics fixture_enriched (Fin 1000))
             = Inr fixture_rebalanced_1000"
    by code_simp
  have 10: "get_num fixture_rebalanced_1000 ''Target Value''
              = Inr [Fin 990, Fin 1980, Fin 990]"
    by code_simp
  have 11: "get_num fixture_rebalanced_1000 ''Target Shares''
              = Inr [Fin 10, Fin 40, Fin 12]"
    by code_simp
  from 1 2 3 4 5 6 7 8 9 10 11 show ?thesis by blast
qed

section \<open>A holding without a price\<close>


section \<open>The Validator\<close>

lemma absent_get_col: "a \<notin> set (columns df) \<Longrightarrow> get_col df a = Inl (KeyError a)"
proof -
  assume "a \<notin> set (columns df)"
  then have "map_of (cols df) a = None"
    by (simp add: columns_def map_of_eq_None_iff)
  then show ?thesis
    by (simp add: get_col_def)
qed

lemma in_columns_iff: "a \<in> set (columns df) \<longleftrightarrow> (\<exists>c. get_col df a = Inr c)"
  using in_columns_get_col [of a df] get_col_in_columns [of df a] by blast

lemma any_map [simp]: "any (map f xs) = list_ex f xs"
  by (simp add: any_def list_ex_iff)

lemma shares_check:
  assumes "no_string_cell df name"
  shows "(if name \<in> set (columns df)
          then bind_res (get_col df name) (\<lambda>c.
               bind_res (col_lt0 c) (\<lambda>neg.
               Inr (if any neg then errors @ [msg] else errors)))
          else Inr errors)
         = Inr (errors @ negative_message df name msg)"
proof (cases "name \<in> set (columns df)")
  case False
  then show ?thesis
    by (simp add: negative_message_def absent_get_col)
next
  case True
  then obtain c where c: "get_col df name = Inr c"
    by (auto simp: in_columns_iff)
  show ?thesis
  proof (cases c)
    case (NumCol xs)
    with True c show ?thesis
      by (simp add: negative_message_def)
  next
    case (StrCol ys)
    with assms c have "list_all (\<lambda>x. x = None) ys"
      by (simp add: no_string_cell_def)
    then have "\<not> list_ex (\<lambda>x. x \<noteq> None) ys"
      by (simp add: list_all_iff list_ex_iff)
    with True c StrCol show ?thesis
      by (simp add: negative_message_def any_def list_ex_iff)
  qed
qed

lemma ticker_check:
  "(if ''Ticker'' \<in> set (columns df)
    then bind_res (get_col df ''Ticker'') (\<lambda>c.
         Inr (if any (col_isna c) \<or> any (col_eq_str c '''')
              then errors @ [''Ticker symbols cannot be empty''] else errors))
    else Inr errors)
   = Inr (errors @ ticker_message df)"
proof (cases "''Ticker'' \<in> set (columns df)")
  case False
  then show ?thesis
    by (simp add: ticker_message_def absent_get_col)
next
  case True
  then obtain c where c: "get_col df ''Ticker'' = Inr c"
    by (auto simp: in_columns_iff)
  show ?thesis
  proof (cases c)
    case (NumCol xs)
    with True c show ?thesis
      by (simp add: ticker_message_def any_def list_ex_iff)
  next
    case (StrCol ys)
    with True c show ?thesis
      by (auto simp: ticker_message_def list_ex_iff)
  qed
qed

lemma missing_check:
  "(if filter (\<lambda>col. col \<notin> set (columns df)) [''Ticker'', ''Shares Held'', ''Target Weight (%)''] \<noteq> []
    then [] @ [''Missing required columns: ''
                @ py_repr_list (filter (\<lambda>col. col \<notin> set (columns df))
                     [''Ticker'', ''Shares Held'', ''Target Weight (%)''])]
    else [])
   = missing_message df"
  unfolding missing_message_def required_columns_def
  by (simp only: filter_empty_conv list_all_iff append_Nil not_not if_not_P split: if_splits)
     auto

lemma validate_run:
  assumes "no_string_cell df ''Shares Held''" and "no_string_cell df ''Target Weight (%)''"
  shows "validate_portfolio_data df
           = Inr (missing_message df
                  @ negative_message df ''Shares Held'' ''Shares held cannot be negative''
                  @ negative_message df ''Target Weight (%)''
                      ''Target weights cannot be negative''
                  @ ticker_message df, df)"
  unfolding validate_portfolio_data_def Let_def missing_check
  by (simp only: shares_check [OF assms(1)] shares_check [OF assms(2)] ticker_check
        bind_res_simps append_assoc)

lemma validate_raises:
  assumes "\<not> no_string_cell df ''Shares Held'' \<or> \<not> no_string_cell df ''Target Weight (%)''"
  shows "validate_portfolio_data df = Inl TypeError"
proof -
  have str: "\<not> no_string_cell df name \<Longrightarrow>
      (if name \<in> set (columns df)
       then bind_res (get_col df name) (\<lambda>c.
            bind_res (col_lt0 c) (\<lambda>neg.
            Inr (if any neg then errors @ [msg] else errors)))
       else Inr errors) = Inl TypeError" for name errors msg
  proof -
    assume a: "\<not> no_string_cell df name"
    then obtain ys where ys: "get_col df name = Inr (StrCol ys)" "\<not> list_all (\<lambda>x. x = None) ys"
      by (auto simp: no_string_cell_def split: sum.splits series.splits)
    then have "name \<in> set (columns df)" "list_ex (\<lambda>x. x \<noteq> None) ys"
      by (auto simp: in_columns_iff list_all_iff list_ex_iff)
    with ys show ?thesis by simp
  qed
  show ?thesis
  proof (cases "no_string_cell df ''Shares Held''")
    case False
    show ?thesis
      unfolding validate_portfolio_data_def Let_def missing_check
      by (simp only: str [OF False] bind_res_simps)
  next
    case True
    with assms have tw: "\<not> no_string_cell df ''Target Weight (%)''" by simp
    show ?thesis
      unfolding validate_portfolio_data_def Let_def missing_check
      by (simp only: shares_check [OF True] str [OF tw] bind_res_simps)
  qed
qed

lemma message_lengths:
  "length (missing_message df) \<le> 1"
  "length (negative_message df name msg) \<le> 1"
  "length (ticker_message df) \<le> 1"
  by (simp_all add: missing_message_def negative_message_def ticker_message_def
      split: sum.splits series.splits)

lemma absent_messages:
  "name \<notin> set (columns df) \<Longrightarrow> negative_message df name msg = []"
  "''Ticker'' \<notin> set (columns df) \<Longrightarrow> ticker_message df = []"
  by (simp_all add: negative_message_def ticker_message_def absent_get_col)

text \<open>
  Claim C6.  On a table whose Shares Held and Target Weight columns hold no string cell, the
  Validator returns the messages of its four checks in order, each check giving at most one
  message, and leaves the table as it was.  When the three required columns are present,
  one row has -5 shares, no other row has negative shares, no target weight is negative and
  no ticker is missing or empty, the result is the single message about negative shares.
\<close>

theorem validate_one_message_per_check:
  assumes "no_string_cell df ''Shares Held''" and "no_string_cell df ''Target Weight (%)''"
  shows "validate_portfolio_data df
           = Inr (missing_message df
                  @ negative_message df ''Shares Held'' ''Shares held cannot be negative''
                  @ negative_message df ''Target Weight (%)''
                      ''Target weights cannot be negative''
                  @ ticker_message df, df)
     \<and> length (missing_message df) \<le> 1
     \<and> length (negative_message df ''Shares Held'' ''Shares held cannot be negative'') \<le> 1
     \<and> length (negative_message df ''Target Weight (%)''
                 ''Target weights cannot be negative'') \<le> 1
     \<and> length (ticker_message df) \<le> 1
     \<and> (\<forall>tk sh tw k.
           get_col df ''Ticker'' = Inr (StrCol tk)
           \<and> get_num df ''Shares Held'' = Inr sh
           \<and> get_num df ''Target Weight (%)'' = Inr tw
           \<and> k < length sh \<and> sh ! k = Fin (- 5)
           \<and> (\<forall>j < length sh. j \<noteq> k \<longrightarrow> \<not> flt (sh ! j) (Fin 0))
           \<and> list_all (\<lambda>x. \<not> flt x (Fin 0)) tw
           \<and> list_all (\<lambda>t. t \<noteq> None \<and> t \<noteq> Some []) tk
           \<longrightarrow> validate_portfolio_data df = Inr ([''Shares held cannot be negative''], df))"
proof (intro conjI allI impI)
  show run: "validate_portfolio_data df
           = Inr (missing_message df
                  @ negative_message df ''Shares Held'' ''Shares held cannot be negative''
                  @ negative_message df ''Target Weight (%)''
                      ''Target weights cannot be negative''
                  @ ticker_message df, df)"
    by (rule validate_run [OF assms])
  fix tk sh tw k
  assume a: "get_col df ''Ticker'' = Inr (StrCol tk)
           \<and> get_num df ''Shares Held'' = Inr sh
           \<and> get_num df ''Target Weight (%)'' = Inr tw
           \<and> k < length sh \<and> sh ! k = Fin (- 5)
           \<and> (\<forall>j < length sh. j \<noteq> k \<longrightarrow> \<not> flt (sh ! j) (Fin 0))
           \<and> list_all (\<lambda>x. \<not> flt x (Fin 0)) tw
           \<and> list_all (\<lambda>t. t \<noteq> None \<and> t \<noteq> Some []) tk"
  then have cols: "get_col df ''Ticker'' = Inr (StrCol tk)"
    "get_col df ''Shares Held'' = Inr (NumCol sh)"
    "get_col df ''Target Weight (%)'' = Inr (NumCol tw)"
    by (simp_all add: get_num_col)
  then have "list_all (\<lambda>c. c \<in> set (columns df)) required_columns"
    by (simp add: required_columns_def in_columns_iff)
  then have m: "missing_message df = []"
    by (simp add: missing_message_def)
  from a have "flt (sh ! k) (Fin 0)" by simp
  moreover from a have "sh ! k \<in> set sh" by (intro nth_mem) simp
  ultimately have "flt (sh ! k) (Fin 0)" "sh ! k \<in> set sh" .
  then have "list_ex (\<lambda>x. flt x (Fin 0)) sh"
    unfolding list_ex_iff by blast
  then have s: "negative_message df ''Shares Held'' ''Shares held cannot be negative''
                  = [''Shares held cannot be negative'']"
    by (simp add: negative_message_def cols)
  from a have "\<not> list_ex (\<lambda>x. flt x (Fin 0)) tw"
    by (simp add: list_all_iff list_ex_iff)
  then have w: "negative_message df ''Target Weight (%)''
                  ''Target weights cannot be negative'' = []"
    by (simp add: negative_message_def cols)
  from a have "\<not> list_ex (\<lambda>x. x = None \<or> x = Some []) tk"
    by (auto simp: list_all_iff list_ex_iff)
  then have t: "ticker_message df = []"
    by (simp add: ticker_message_def cols)
  show "validate_portfolio_data df = Inr ([''Shares held cannot be negative''], df)"
    unfolding run m s w t by simp
qed (rule message_lengths)+

lemma short_position_typed:
  "no_string_cell short_position ''Shares Held''"
  "no_string_cell short_position ''Target Weight (%)''"
  by (simp_all add: no_string_cell_def short_position_def get_col_def)

lemma short_position_reads:
  "get_col short_position ''Ticker'' = Inr (StrCol [Some ''TCS'', Some ''INFY''])"
  "get_num short_position ''Shares Held'' = Inr [Fin (- 5), Fin 20]"
  "get_num short_position ''Target Weight (%)'' = Inr [Fin 40, Fin 60]"
  by (simp_all add: short_position_def get_num_def get_col_def)

theorem validate_one_message_per_check_witness:
  "no_string_cell short_position ''Shares Held''
   \<and> no_string_cell short_position ''Target Weight (%)''
   \<and> get_col short_position ''Ticker'' = Inr (StrCol [Some ''TCS'', Some ''INFY''])
   \<and> get_num short_position ''Shares Held'' = Inr [Fin (- 5), Fin 20]
   \<and> get_num short_position ''Target Weight (%)'' = Inr [Fin 40, Fin 60]
   \<and> validate_portfolio_data short_position
       = Inr ([''Shares held cannot be negative''], short_position)"
proof -
  note v = validate_one_message_per_check [OF short_position_typed]
  have "validate_portfolio_data short_position
          = Inr ([''Shares held cannot be negative''], short_position)"
  proof -
    have "get_col short_position ''Ticker'' = Inr (StrCol [Some ''TCS'', Some ''INFY''])
           \<and> get_num short_position ''Shares Held'' = Inr [Fin (- 5), Fin 20]
           \<and> get_num short_position ''Target Weight (%)'' = Inr [Fin 40, Fin 60]
           \<and> 0 < length [Fin (- 5), Fin 20] \<and> [Fin (- 5), Fin 20] ! 0 = Fin (- 5)
           \<and> (\<forall>j < length [Fin (- 5), Fin 20]. j \<noteq> 0 \<longrightarrow>
                 \<not> flt ([Fin (- 5), Fin 20] ! j) (Fin 0))
           \<and> list_all (\<lambda>x. \<not> flt x (Fin 0)) [Fin 40, Fin 60]
           \<and> list_all (\<lambda>t. t \<noteq> None \<and> t \<noteq> Some []) [Some ''TCS'', Some ''INFY'']"
      by (simp add: short_position_reads less_Suc_eq)
    with v show ?thesis by blast
  qed
  with short_position_typed short_position_reads show ?thesis by simp
qed

text \<open>
  Claim C10.  The Validator raises TypeError exactly when a Shares Held or Target Weight
  column that is present holds a string cell.  On every other table, whatever columns are
  absent, it returns and leaves the table as it was: the check of an absent column gives no
  message, and the missing-columns message appears once, listing the absent required
  columns, when one is absent, and not at all when all three are present.
\<close>

theorem validate_total_on_typed_tables:
  "(no_string_cell df ''Shares Held'' \<and> no_string_cell df ''Target Weight (%)'' \<longrightarrow>
      validate_portfolio_data df
        = Inr (missing_message df
               @ negative_message df ''Shares Held'' ''Shares held cannot be negative''
               @ negative_message df ''Target Weight (%)''
                   ''Target weights cannot be negative''
               @ ticker_message df, df)
      \<and> (''Shares Held'' \<notin> set (columns df) \<longrightarrow>
             negative_message df ''Shares Held'' ''Shares held cannot be negative'' = [])
      \<and> (''Target Weight (%)'' \<notin> set (columns df) \<longrightarrow>
             negative_message df ''Target Weight (%)''
               ''Target weights cannot be negative'' = [])
      \<and> (''Ticker'' \<notin> set (columns df) \<longrightarrow> ticker_message df = [])
      \<and> (list_all (\<lambda>c. c \<in> set (columns df)) required_columns \<longrightarrow>
             missing_message df = [])
      \<and> (\<not> list_all (\<lambda>c. c \<in> set (columns df)) required_columns \<longrightarrow>
             missing_message df
               = [''Missing required columns: ''
                    @ py_repr_list (filter (\<lambda>c. c \<notin> set (columns df)) required_columns)]))
   \<and> (\<not> (no_string_cell df ''Shares Held'' \<and> no_string_cell df ''Target Weight (%)'') \<longrightarrow>
        validate_portfolio_data df = Inl TypeError)"
proof (intro conjI impI)
  assume "no_string_cell df ''Shares Held'' \<and> no_string_cell df ''Target Weight (%)''"
  then show "validate_portfolio_data df
        = Inr (missing_message df
               @ negative_message df ''Shares Held'' ''Shares held cannot be negative''
               @ negative_message df ''Target Weight (%)''
                   ''Target weights cannot be negative''
               @ ticker_message df, df)"
    by (simp add: validate_run)
next
  assume "\<not> (no_string_cell df ''Shares Held'' \<and> no_string_cell df ''Target Weight (%)'')"
  then show "validate_portfolio_data df = Inl TypeError"
    by (intro validate_raises) simp
qed (simp_all add: absent_messages missing_message_def)

theorem validate_raises_on_text_counterexample:
  "columns text_shares = [''Ticker'', ''Shares Held'', ''Target Weight (%)'']
   \<and> get_col text_shares ''Shares Held'' = Inr (StrCol [Some ''ten''])
   \<and> validate_portfolio_data text_shares = Inl TypeError"
proof -
  have 1: "columns text_shares = [''Ticker'', ''Shares Held'', ''Target Weight (%)'']"
    by code_simp
  have 2: "get_col text_shares ''Shares Held'' = Inr (StrCol [Some ''ten''])"
    by code_simp
  have 3: "validate_portfolio_data text_shares = Inl TypeError"
    by code_simp
  from 1 2 3 show ?thesis by simp
qed

lemma only_ticker_typed:
  "no_string_cell only_ticker ''Shares Held'' \<and> no_string_cell only_ticker ''Target Weight (%)''"
  by (simp add: no_string_cell_def only_ticker_def get_col_def)

theorem validate_total_on_typed_tables_witness:
  "no_string_cell only_ticker ''Shares Held''
   \<and> no_string_cell only_ticker ''Target Weight (%)''
   \<and> ''Shares Held'' \<notin> set (columns only_ticker)
   \<and> ''Target Weight (%)'' \<notin> set (columns only_ticker)
   \<and> validate_portfolio_data only_ticker
       = Inr ([''Missing required columns: [''
                 @ [CHR 0x27] @ ''Shares Held'' @ [CHR 0x27] @ '', ''
                 @ [CHR 0x27] @ ''Target Weight (%)'' @ [CHR 0x27] @ '']''], only_ticker)"
proof -
  have c: "columns only_ticker = [''Ticker'']"
    by (simp add: columns_def only_ticker_def)
  have absent: "''Shares Held'' \<notin> set (columns only_ticker)"
    "''Target Weight (%)'' \<notin> set (columns only_ticker)"
    by (simp_all add: c)
  have nall: "\<not> list_all (\<lambda>c. c \<in> set (columns only_ticker)) required_columns"
    by (simp add: c required_columns_def)
  have t: "ticker_message only_ticker = []"
    by (simp add: ticker_message_def only_ticker_def get_col_def)
  have f: "filter (\<lambda>c. c \<notin> set (columns only_ticker)) required_columns
             = [''Shares Held'', ''Target Weight (%)'']"
    by (simp add: c required_columns_def)
  note v = validate_total_on_typed_tables [of only_ticker]
  from v only_ticker_typed absent nall
  have "validate_portfolio_data only_ticker
          = Inr ([''Missing required columns: ''
                    @ py_repr_list (filter (\<lambda>c. c \<notin> set (columns only_ticker))
                        required_columns)]
                 @ [] @ [] @ ticker_message only_ticker, only_ticker)"
    by simp
  then have "validate_portfolio_data only_ticker
          = Inr ([''Missing required columns: ''
                    @ py_repr_list [''Shares Held'', ''Target Weight (%)'']], only_ticker)"
    by (simp only: f t append_Nil2 append_Nil)
  with only_ticker_typed absent show ?thesis
    by (simp add: py_repr_list_def)
qed

section \<open>Rows and columns\<close>

lemma distinct_column_order: "distinct column_order"
  by (simp add: column_order_def)

lemma writes_in_order:
  "set metrics_writes \<subseteq> set column_order" "set engine_writes \<subseteq> set column_order"
  by (simp_all add: metrics_writes_def engine_writes_def column_order_def)

lemma filter_written_empty:
  "set ws \<subseteq> set order \<Longrightarrow> filter (\<lambda>c. c \<notin> set order) (filter Q ws) = []"
  by (auto simp: filter_empty_conv)

lemma wf_reorder:
  assumes "wf_df df"
    and "nrows out = nrows df"
    and "columns out = filter (\<lambda>c. c \<in> set (columns df)) column_order
                        @ filter (\<lambda>c. c \<notin> set column_order) (columns df)"
    and "\<forall>c. get_col out c = get_col df c"
  shows "wf_df out"
proof -
  from assms(1) have d: "distinct (columns df)"
    by (simp add: wf_df_def)
  have dist: "distinct (columns out)"
    unfolding assms(3) using d distinct_column_order by auto
  have "col_len (snd p) = nrows out" if "p \<in> set (cols out)" for p
  proof -
    obtain n c where p: "p = (n, c)" by (cases p)
    with that dist have "map_of (cols out) n = Some c"
      by (simp add: columns_def)
    then have "get_col out n = Inr c"
      by (simp add: get_col_def)
    with assms(4) have "get_col df n = Inr c" by simp
    with assms(1,2) p show ?thesis
      by (simp add: wf_col_len)
  qed
  with dist show ?thesis
    by (simp add: wf_df_def list_all_iff)
qed

lemma length_weight_pct:
  "length vals = n \<Longrightarrow> length (weight_pct vals n) = n"
  by (simp add: weight_pct_def)

lemma wf_metrics_table:
  assumes "wf_df df"
    and "get_num df ''Shares Held'' = Inr sh"
    and "get_num df ''Current Price (per share)'' = Inr pr"
  shows "wf_df (metrics_table df sh pr)"
proof -
  have len: "length sh = nrows df" "length pr = nrows df"
    using assms by (simp_all add: wf_num_len)
  then have cv: "length (map2 fmul sh pr) = nrows df" by simp
  show ?thesis
    unfolding metrics_table_def
    using assms(1) cv by (intro wf_set_col) (simp_all add: length_weight_pct)
qed

lemma wf_engine_table:
  assumes "wf_df df"
    and "length cv = nrows df" and "length tw = nrows df"
    and "length pr = nrows df" and "length sh = nrows df"
  shows "wf_df (engine_table df cap cv tw pr sh)"
  unfolding engine_table_def Let_def
  using assms by (intro wf_set_col) (simp_all add: length_weight_pct)

lemma columns_after_engine:
  "filter (\<lambda>c. c \<in> set (columns (engine_table df cap cv tw pr sh))) column_order
     @ filter (\<lambda>c. c \<notin> set column_order) (columns (engine_table df cap cv tw pr sh))
   = filter (\<lambda>c. c \<in> set (columns df) \<or> c \<in> set engine_writes) column_order
     @ filter (\<lambda>c. c \<notin> set column_order) (columns df)"
proof -
  have 1: "filter (\<lambda>c. c \<in> set (columns (engine_table df cap cv tw pr sh))) column_order
             = filter (\<lambda>c. c \<in> set (columns df) \<or> c \<in> set engine_writes) column_order"
    by (rule filter_cong) (auto simp: columns_engine_table)
  have 2: "filter (\<lambda>c. c \<notin> set column_order) (columns (engine_table df cap cv tw pr sh))
             = filter (\<lambda>c. c \<notin> set column_order) (columns df)"
    by (simp only: columns_engine_table filter_append
          filter_written_empty [OF writes_in_order(2)] append_Nil2)
  show ?thesis by (simp only: 1 2)
qed

lemma all_canonical_present:
  assumes "''Ticker'' \<in> set (columns df)" and "''Current Weight (%)'' \<in> set (columns df)"
    and "''Current Value'' \<in> set (columns df)" and "''Target Weight (%)'' \<in> set (columns df)"
    and "''Current Price (per share)'' \<in> set (columns df)"
    and "''Shares Held'' \<in> set (columns df)"
  shows "filter (\<lambda>c. c \<in> set (columns df) \<or> c \<in> set engine_writes) column_order
           = column_order"
  unfolding filter_id_conv
  using assms by (simp add: column_order_def engine_writes_def)

lemma get_num_in_columns: "get_num df a = Inr xs \<Longrightarrow> a \<in> set (columns df)"
  by (simp add: get_num_col get_col_in_columns)


lemma annotated_reads:
  "get_num annotated ''Shares Held'' = Inr [Fin 10, Fin 20, Fin 12]"
  "get_num annotated ''Current Price (per share)'' = Inr [Fin 100, Fin 50, Fin 80]"
  "get_num annotated ''Target Weight (%)'' = Inr [Fin 25, Fin 50, Fin 25]"
  "get_num annotated ''Current Value'' = Inr [Fin 1000, Fin 1000, Fin 960]"
  by (simp_all add: annotated_def get_num_def get_col_def)

lemma annotated_columns:
  "columns annotated
     = [''Sector'', ''Ticker'', ''Shares Held'', ''Broker'', ''Target Weight (%)'',
        ''Current Price (per share)'', ''Current Value'', ''Current Weight (%)'']"
  by (simp add: annotated_def columns_def)


section \<open>Share optimization on the float64 quotient\<close>

lemma optimize_loop_fp_returns:
  "\<not> list_ex (raises_row_fp A) xs \<Longrightarrow>
     optimize_loop_fp A acc xs = Inr (acc @ map (share_of_fp A) xs)"
proof (induction xs arbitrary: acc)
  case Nil
  then show ?case by simp
next
  case (Cons x xs)
  obtain p t where x: "x = (p, t)" by (cases x)
  from Cons.prems have rest: "\<not> list_ex (raises_row_fp A) xs"
    and here: "\<not> raises_row_fp A (p, t)"
    by (simp_all add: x)
  show ?case
  proof (cases "pos64 p")
    case False
    then show ?thesis
      by (simp add: x Cons.IH [OF rest] share_of_fp_def)
  next
    case True
    with here obtain q where q: "div64 A t p = FNum q"
      by (cases "div64 A t p") (auto simp: raises_row_fp_def)
    with True show ?thesis
      by (simp add: x Cons.IH [OF rest] share_of_fp_def)
  qed
qed

lemma optimize_loop_fp_raises:
  "list_ex (raises_row_fp A) xs \<Longrightarrow>
     optimize_loop_fp A acc xs = Inl ValueError \<or> optimize_loop_fp A acc xs = Inl OverflowError"
proof (induction xs arbitrary: acc)
  case Nil
  then show ?case by simp
next
  case (Cons x xs)
  obtain p t where x: "x = (p, t)" by (cases x)
  show ?case
  proof (cases "raises_row_fp A (p, t)")
    case True
    then show ?thesis
      by (cases "div64 A t p") (auto simp: x raises_row_fp_def)
  next
    case False
    with Cons.prems have "list_ex (raises_row_fp A) xs"
      by (simp add: x)
    from Cons.IH [OF this] show ?thesis
      by (cases "div64 A t p") (auto simp: x)
  qed
qed

lemma optimize_shares_fp_returns:
  "\<not> list_ex (raises_row_fp A) (zip prices targets) \<Longrightarrow>
     optimize_shares_fp A prices targets = Inr (map (share_of_fp A) (zip prices targets))"
  by (simp add: optimize_shares_fp_def optimize_loop_fp_returns)

lemma optimize_shares_fp_raises:
  "list_ex (raises_row_fp A) (zip prices targets) \<Longrightarrow>
     optimize_shares_fp A prices targets = Inl ValueError
     \<or> optimize_shares_fp A prices targets = Inl OverflowError"
  unfolding optimize_shares_fp_def by (rule optimize_loop_fp_raises)

text \<open>
  Claim C3.  For every float64 arithmetic: on a call of \<open>optimize_shares\<close> in which no
  positively priced row has a NaN or infinite quotient, the call returns, and a row with a
  positive price whose float64 quotient target / price is the finite number \<open>q\<close> gets
  \<open>round(q)\<close>: an integer nearest to \<open>q\<close>, the even one when \<open>q\<close> lies halfway, and the
  only integer with that property.  The pinned case: the quotient of 125 and 50 is 2.5, a
  float64, and the share count is 2, the round-half-to-even answer.
\<close>

theorem optimize_shares_rounds_half_even:
  assumes "\<not> list_ex (raises_row_fp A) (zip prices targets)"
    and "i < length prices" and "i < length targets"
    and "pos64 (prices ! i)"
    and "div64 A (targets ! i) (prices ! i) = FNum q"
  shows "(\<exists>shares. optimize_shares_fp A prices targets = Inr shares
            \<and> length shares = min (length prices) (length targets)
            \<and> shares ! i = py_round q
            \<and> nearest_half_even q (shares ! i)
            \<and> (\<forall>n. nearest_half_even q n \<longrightarrow> n = shares ! i))
         \<and> (op_div A (FNum 125) (FNum 50) = FNum (5 / 2) \<longrightarrow>
              optimize_shares_fp A [FNum 50] [FNum 125] = Inr [2])"
proof -
  let ?shares = "map (share_of_fp A) (zip prices targets)"
  have run: "optimize_shares_fp A prices targets = Inr ?shares"
    using assms(1) by (rule optimize_shares_fp_returns)
  have len: "length ?shares = min (length prices) (length targets)"
    by simp
  have row: "?shares ! i = py_round q"
    using assms(2-5) by (simp add: share_of_fp_def)
  have near: "nearest_half_even q (?shares ! i)"
    unfolding row by (rule py_round_nearest)
  have uniq: "\<forall>n. nearest_half_even q n \<longrightarrow> n = ?shares ! i"
    unfolding row by (blast dest: nearest_half_even_unique)
  have half: "py_round (5 / 2) = 2"
    by code_simp
  have pinned: "op_div A (FNum 125) (FNum 50) = FNum (5 / 2) \<longrightarrow>
      optimize_shares_fp A [FNum 50] [FNum 125] = Inr [2]"
    by (simp add: optimize_shares_fp_def div64_def half)
  from run len row near uniq pinned show ?thesis by blast
qed

theorem optimize_shares_rounds_half_even_witness:
  "\<not> list_ex (raises_row_fp exact_arith) (zip [FNum 50, FNaN] [FNum 175, FNaN])
   \<and> pos64 ([FNum 50, FNaN] ! 0)
   \<and> div64 exact_arith ([FNum 175, FNaN] ! 0) ([FNum 50, FNaN] ! 0) = FNum (7 / 2)
   \<and> op_div exact_arith (FNum 125) (FNum 50) = FNum (5 / 2)
   \<and> (\<exists>shares. optimize_shares_fp exact_arith [FNum 50, FNaN] [FNum 175, FNaN] = Inr shares
         \<and> shares ! 0 = 4)
   \<and> optimize_shares_fp exact_arith [FNum 50] [FNum 125] = Inr [2]"
proof -
  have h1: "\<not> list_ex (raises_row_fp exact_arith) (zip [FNum 50, FNaN] [FNum 175, FNaN])"
    by (simp add: raises_row_fp_def div64_def exact_arith_def)
  have h2: "(0::nat) < length [FNum 50, FNaN]" "(0::nat) < length [FNum 175, FNaN]"
    by simp_all
  have h3: "pos64 ([FNum 50, FNaN] ! 0)"
    by simp
  have h4: "div64 exact_arith ([FNum 175, FNaN] ! 0) ([FNum 50, FNaN] ! 0) = FNum (7 / 2)"
    by (simp add: div64_def exact_arith_def)
  have h5: "op_div exact_arith (FNum 125) (FNum 50) = FNum (5 / 2)"
    by (simp add: exact_arith_def)
  have r: "py_round (7 / 2) = 4"
    by code_simp
  note t = optimize_shares_rounds_half_even [OF h1 h2 h3 h4]
  from t h5 r have
    "(\<exists>shares. optimize_shares_fp exact_arith [FNum 50, FNaN] [FNum 175, FNaN] = Inr shares
         \<and> shares ! 0 = 4)"
    "optimize_shares_fp exact_arith [FNum 50] [FNum 125] = Inr [2]"
    by auto
  with h1 h3 h4 h5 show ?thesis by blast
qed

section \<open>The runs of the float64 embedding\<close>

lemma nan_ops [simp]:
  "mul64 A FNaN y = FNaN" "mul64 A x FNaN = FNaN"
  "div64 A FNaN y = FNaN" "div64 A x FNaN = FNaN"
  "sub64 A FNaN y = FNaN" "sub64 A x FNaN = FNaN"
  "add64 A FNaN y = FNaN" "add64 A x FNaN = FNaN"
  by (simp_all add: mul64_def div64_def sub64_def add64_def)

lemma metrics_run_fp:
  assumes "get_num df ''Shares Held'' = Inr sh"
    and "get_num df ''Current Price (per share)'' = Inr pr"
    and "get_num df ''Target Weight (%)'' = Inr tw"
  shows "calculate_portfolio_metrics_fp A df =
           Inr ((sum64 A (map2 (mul64 A) sh pr),
                 round2_64 A (sum64 A (weight_pct_fp A (map2 (mul64 A) sh pr) (nrows df))),
                 round2_64 A (sum64 A tw)),
                metrics_table_fp A df sh pr)"
  using assms
  by (simp add: calculate_portfolio_metrics_fp_def metrics_table_fp_def weight_pct_fp_def
      Let_def)

lemma engine_run_fp:
  assumes "get_num df ''Current Value'' = Inr cv"
    and "get_num df ''Target Weight (%)'' = Inr tw"
    and "get_num df ''Current Price (per share)'' = Inr pr"
    and "get_num df ''Shares Held'' = Inr sh"
    and "\<not> list_ex (raises_row_fp A) (zip pr (tv_col_fp A cv tw cap))"
  shows "calculate_rebalancing_metrics_fp A df cap =
           bind_res (reorder_rebalanced_columns (engine_table_fp A df cap cv tw pr sh))
             (\<lambda>out. Inr (out, engine_table_fp A df cap cv tw pr sh))"
  using assms unfolding engine_table_fp_def diff_col_fp_def tva_col_fp_def ts_col_fp_def Let_def
  by (simp add: calculate_rebalancing_metrics_fp_def optimize_shares_fp_returns
      weight_pct_fp_def Let_def flip: tv_col_fp_def)

lemma engine_table_fp_frame:
  "c \<notin> set engine_writes \<Longrightarrow>
     get_col (engine_table_fp A df cap cv tw pr sh) c = get_col df c"
  by (simp add: engine_table_fp_def Let_def engine_writes_def)

lemma nrows_engine_table_fp [simp]:
  "nrows (engine_table_fp A df cap cv tw pr sh) = nrows df"
  by (simp add: engine_table_fp_def Let_def)

lemma nrows_metrics_table_fp [simp]: "nrows (metrics_table_fp A df sh pr) = nrows df"
  by (simp add: metrics_table_fp_def)

lemma engine_table_fp_cols:
  "get_num (engine_table_fp A df cap cv tw pr sh) ''Target Value''
     = Inr (tv_col_fp A cv tw cap)"
  "get_num (engine_table_fp A df cap cv tw pr sh) ''Target Shares''
     = Inr (ts_col_fp A pr (tv_col_fp A cv tw cap))"
  "get_num (engine_table_fp A df cap cv tw pr sh) ''Target Value (Actual)''
     = Inr (tva_col_fp A pr (tv_col_fp A cv tw cap))"
  "get_num (engine_table_fp A df cap cv tw pr sh) ''Real Weight (%)''
     = Inr (weight_pct_fp A (tva_col_fp A pr (tv_col_fp A cv tw cap)) (nrows df))"
  by (simp_all add: engine_table_fp_def Let_def)

lemma metrics_table_fp_cols:
  "get_num (metrics_table_fp A df sh pr) ''Current Value'' = Inr (map2 (mul64 A) sh pr)"
  "get_num (metrics_table_fp A df sh pr) ''Current Weight (%)''
     = Inr (weight_pct_fp A (map2 (mul64 A) sh pr) (nrows df))"
  "get_num (metrics_table_fp A df sh pr) ''Shares Held'' = get_num df ''Shares Held''"
  "get_num (metrics_table_fp A df sh pr) ''Current Price (per share)''
     = get_num df ''Current Price (per share)''"
  "get_num (metrics_table_fp A df sh pr) ''Target Weight (%)''
     = get_num df ''Target Weight (%)''"
  by (simp_all add: metrics_table_fp_def)

lemma engine_success_fp:
  assumes "get_num df ''Current Value'' = Inr cv"
    and "get_num df ''Target Weight (%)'' = Inr tw"
    and "get_num df ''Current Price (per share)'' = Inr pr"
    and "get_num df ''Shares Held'' = Inr sh"
    and "\<not> list_ex (raises_row_fp A) (zip pr (tv_col_fp A cv tw cap))"
  shows "\<exists>out. calculate_rebalancing_metrics_fp A df cap
                  = Inr (out, engine_table_fp A df cap cv tw pr sh)
     \<and> nrows out = nrows df
     \<and> (\<forall>c. get_num out c = get_num (engine_table_fp A df cap cv tw pr sh) c)"
proof -
  obtain out where out:
    "reorder_rebalanced_columns (engine_table_fp A df cap cv tw pr sh) = Inr out"
    "nrows out = nrows (engine_table_fp A df cap cv tw pr sh)"
    "\<forall>c. get_col out c = get_col (engine_table_fp A df cap cv tw pr sh) c"
    using reorder_run [of "engine_table_fp A df cap cv tw pr sh"] by blast
  have "calculate_rebalancing_metrics_fp A df cap
          = Inr (out, engine_table_fp A df cap cv tw pr sh)"
    by (simp add: engine_run_fp [OF assms] out(1))
  with out show ?thesis by (auto simp: get_num_def)
qed

lemma engine_raises_fp:
  assumes "get_num df ''Current Value'' = Inr cv"
    and "get_num df ''Target Weight (%)'' = Inr tw"
    and "get_num df ''Current Price (per share)'' = Inr pr"
    and "list_ex (raises_row_fp A) (zip pr (tv_col_fp A cv tw cap))"
  shows "calculate_rebalancing_metrics_fp A df cap = Inl ValueError
         \<or> calculate_rebalancing_metrics_fp A df cap = Inl OverflowError"
  using assms optimize_shares_fp_raises [OF assms(4)]
  by (auto simp: calculate_rebalancing_metrics_fp_def Let_def simp flip: tv_col_fp_def)

lemma round2_64_two_decimals:
  "two_decimals A x (round2_64 A x)"
proof (cases "mul64 A x (FNum 100)")
  case (FNum y)
  then have "round2_64 A x = div64 A (FNum (of_int (py_round y))) (FNum 100)"
    by (simp add: round2_64_def)
  moreover have "nearest_half_even y (py_round y)"
    by (rule py_round_nearest)
  ultimately show ?thesis
    unfolding two_decimals_def FNum by auto
qed (simp_all add: two_decimals_def round2_64_def)

section \<open>Weights and the zero guard\<close>

lemma weight_pct_fp_zero:
  "\<not> pos64 (sum64 A vals) \<Longrightarrow> weight_pct_fp A vals n = replicate n (FNum 0)"
  by (simp add: weight_pct_fp_def)

lemma weight_pct_fp_pos:
  assumes "pos64 (sum64 A vals)"
  shows "length (weight_pct_fp A vals n) = length vals
         \<and> (\<forall>j < length (weight_pct_fp A vals n).
               two_decimals A (mul64 A (div64 A (vals ! j) (sum64 A vals)) (FNum 100))
                 (weight_pct_fp A vals n ! j))"
  using assms by (simp add: weight_pct_fp_def round2_64_two_decimals)

text \<open>
  Claim C5.  For every float64 arithmetic, the Metrics Calculator returns on every table
  that has numeric shares, price and target-weight columns.  When the total current value
  is not greater than 0, the current weight is exactly 0.0 in every row; when it is, each
  weight is value / total * 100 rounded to two decimals: that value times 100, rounded to
  a nearest integer with ties to even, divided by 100.  The Rebalancing Engine, on every
  run that does not raise in the rounding of the shares, does the same for the real weight
  against the total of the post-trade values.
\<close>

theorem weights_zero_guard:
  assumes "get_num df ''Shares Held'' = Inr sh"
    and "get_num df ''Current Price (per share)'' = Inr pr"
    and "get_num df ''Target Weight (%)'' = Inr tw"
  shows "(\<exists>total tcw ttw df' cv cw.
            calculate_portfolio_metrics_fp A df = Inr ((total, tcw, ttw), df')
            \<and> cv = map2 (mul64 A) sh pr
            \<and> total = sum64 A cv
            \<and> get_num df' ''Current Value'' = Inr cv
            \<and> get_num df' ''Current Weight (%)'' = Inr cw
            \<and> (\<not> pos64 total \<longrightarrow> cw = replicate (nrows df) (FNum 0))
            \<and> (pos64 total \<longrightarrow>
                  length cw = length cv
                  \<and> (\<forall>j < length cw.
                        two_decimals A (mul64 A (div64 A (cv ! j) total) (FNum 100)) (cw ! j))))
       \<and> (\<forall>cv cap. get_num df ''Current Value'' = Inr cv
              \<and> \<not> list_ex (raises_row_fp A) (zip pr (tv_col_fp A cv tw cap)) \<longrightarrow>
            (\<exists>out df' tva rw.
               calculate_rebalancing_metrics_fp A df cap = Inr (out, df')
               \<and> tva = tva_col_fp A pr (tv_col_fp A cv tw cap)
               \<and> get_num out ''Target Value (Actual)'' = Inr tva
               \<and> get_num out ''Real Weight (%)'' = Inr rw
               \<and> (\<not> pos64 (sum64 A tva) \<longrightarrow> rw = replicate (nrows df) (FNum 0))
               \<and> (pos64 (sum64 A tva) \<longrightarrow>
                     length rw = length tva
                     \<and> (\<forall>j < length rw.
                           two_decimals A
                             (mul64 A (div64 A (tva ! j) (sum64 A tva)) (FNum 100))
                             (rw ! j)))))"
proof (intro conjI allI impI)
  let ?cv = "map2 (mul64 A) sh pr"
  let ?cw = "weight_pct_fp A ?cv (nrows df)"
  have "\<not> pos64 (sum64 A ?cv) \<longrightarrow> ?cw = replicate (nrows df) (FNum 0)"
    by (simp add: weight_pct_fp_zero)
  moreover have "pos64 (sum64 A ?cv) \<longrightarrow>
      length ?cw = length ?cv
      \<and> (\<forall>j < length ?cw.
            two_decimals A (mul64 A (div64 A (?cv ! j) (sum64 A ?cv)) (FNum 100)) (?cw ! j))"
    using weight_pct_fp_pos [of A ?cv "nrows df"] by blast
  ultimately show "\<exists>total tcw ttw df' cv cw.
            calculate_portfolio_metrics_fp A df = Inr ((total, tcw, ttw), df')
            \<and> cv = map2 (mul64 A) sh pr
            \<and> total = sum64 A cv
            \<and> get_num df' ''Current Value'' = Inr cv
            \<and> get_num df' ''Current Weight (%)'' = Inr cw
            \<and> (\<not> pos64 total \<longrightarrow> cw = replicate (nrows df) (FNum 0))
            \<and> (pos64 total \<longrightarrow>
                  length cw = length cv
                  \<and> (\<forall>j < length cw.
                        two_decimals A (mul64 A (div64 A (cv ! j) total) (FNum 100)) (cw ! j)))"
    using metrics_run_fp [OF assms, of A] metrics_table_fp_cols(1,2) [of A df sh pr]
    by blast
next
  fix cv cap
  assume a: "get_num df ''Current Value'' = Inr cv
              \<and> \<not> list_ex (raises_row_fp A) (zip pr (tv_col_fp A cv tw cap))"
  let ?D = "engine_table_fp A df cap cv tw pr sh"
  let ?tva = "tva_col_fp A pr (tv_col_fp A cv tw cap)"
  let ?rw = "weight_pct_fp A ?tva (nrows df)"
  from a engine_success_fp [OF _ assms(3) assms(2) assms(1), of cv A cap]
  obtain out where out: "calculate_rebalancing_metrics_fp A df cap = Inr (out, ?D)"
    "\<forall>c. get_num out c = get_num ?D c"
    by blast
  have 1: "get_num out ''Target Value (Actual)'' = Inr ?tva"
    by (simp add: out(2) engine_table_fp_cols)
  have 2: "get_num out ''Real Weight (%)'' = Inr ?rw"
    by (simp add: out(2) engine_table_fp_cols)
  have 3: "\<not> pos64 (sum64 A ?tva) \<longrightarrow> ?rw = replicate (nrows df) (FNum 0)"
    by (simp add: weight_pct_fp_zero)
  have 4: "pos64 (sum64 A ?tva) \<longrightarrow>
      length ?rw = length ?tva
      \<and> (\<forall>j < length ?rw.
            two_decimals A (mul64 A (div64 A (?tva ! j) (sum64 A ?tva)) (FNum 100)) (?rw ! j))"
    using weight_pct_fp_pos [of A ?tva "nrows df"] by blast
  from out(1) 1 2 3 4
  show "\<exists>out df' tva rw.
               calculate_rebalancing_metrics_fp A df cap = Inr (out, df')
               \<and> tva = tva_col_fp A pr (tv_col_fp A cv tw cap)
               \<and> get_num out ''Target Value (Actual)'' = Inr tva
               \<and> get_num out ''Real Weight (%)'' = Inr rw
               \<and> (\<not> pos64 (sum64 A tva) \<longrightarrow> rw = replicate (nrows df) (FNum 0))
               \<and> (pos64 (sum64 A tva) \<longrightarrow>
                     length rw = length tva
                     \<and> (\<forall>j < length rw.
                           two_decimals A
                             (mul64 A (div64 A (tva ! j) (sum64 A tva)) (FNum 100))
                             (rw ! j)))"
    by blast
qed

lemma exact_ops [simp]:
  "mul64 exact_arith (FNum a) (FNum b) = FNum (a * b)"
  "div64 exact_arith (FNum a) (FNum b) = (if b = 0 then FNaN else FNum (a / b))"
  "add64 exact_arith (FNum a) (FNum b) = FNum (a + b)"
  "sub64 exact_arith (FNum a) (FNum b) = FNum (a - b)"
  by (simp_all add: mul64_def div64_def add64_def sub64_def exact_arith_def)

lemma two_decimals_exact:
  assumes "two_decimals exact_arith (FNum x) w"
  shows "w = FNum (of_int (py_round (x * 100)) / 100)"
proof -
  from assms obtain k where k: "nearest_half_even (x * 100) k"
    "w = div64 exact_arith (FNum (of_int k)) (FNum 100)"
    by (auto simp: two_decimals_def)
  from k(1) have "k = py_round (x * 100)"
    by (rule nearest_half_even_unique)
  with k(2) show ?thesis by simp
qed

lemma fixture64_reads:
  "get_num (frame64 fixture_enriched) ''Shares Held'' = Inr [FNum 10, FNum 20, FNum 12]"
  "get_num (frame64 fixture_enriched) ''Current Price (per share)''
     = Inr [FNum 100, FNum 50, FNum 80]"
  "get_num (frame64 fixture_enriched) ''Target Weight (%)'' = Inr [FNum 25, FNum 50, FNum 25]"
  "get_num (frame64 fixture_enriched) ''Current Value'' = Inr [FNum 1000, FNum 1000, FNum 960]"
  by (simp_all add: frame64_def fixture_enriched_def get_num_def get_col_def)

lemma zero_priced64_reads:
  "get_num (frame64 zero_priced) ''Shares Held'' = Inr [FNum 10, FNum 5]"
  "get_num (frame64 zero_priced) ''Current Price (per share)'' = Inr [FNum 0, FNum 0]"
  "get_num (frame64 zero_priced) ''Target Weight (%)'' = Inr [FNum 50, FNum 50]"
  "get_num (frame64 zero_priced) ''Current Value'' = Inr [FNum 0, FNum 0]"
  by (simp_all add: frame64_def zero_priced_def get_num_def get_col_def)

theorem weights_zero_guard_witness:
  "get_num (frame64 fixture_enriched) ''Shares Held'' = Inr [FNum 10, FNum 20, FNum 12]
   \<and> get_num (frame64 fixture_enriched) ''Current Price (per share)''
       = Inr [FNum 100, FNum 50, FNum 80]
   \<and> get_num (frame64 fixture_enriched) ''Target Weight (%)''
       = Inr [FNum 25, FNum 50, FNum 25]
   \<and> get_num (frame64 fixture_enriched) ''Current Value''
       = Inr [FNum 1000, FNum 1000, FNum 960]
   \<and> \<not> list_ex (raises_row_fp exact_arith)
         (zip [FNum 100, FNum 50, FNum 80]
            (tv_col_fp exact_arith [FNum 1000, FNum 1000, FNum 960]
               [FNum 25, FNum 50, FNum 25] (FNum 0)))
   \<and> (\<exists>totals df' cw.
         calculate_portfolio_metrics_fp exact_arith (frame64 fixture_enriched)
           = Inr (totals, df')
         \<and> get_num df' ''Current Weight (%)'' = Inr cw \<and> cw ! 0 = FNum (3378 / 100))
   \<and> (\<exists>out df' rw.
         calculate_rebalancing_metrics_fp exact_arith (frame64 fixture_enriched) (FNum 0)
           = Inr (out, df')
         \<and> get_num out ''Real Weight (%)'' = Inr rw \<and> rw ! 0 = FNum (2397 / 100))
   \<and> get_num (frame64 zero_priced) ''Shares Held'' = Inr [FNum 10, FNum 5]
   \<and> get_num (frame64 zero_priced) ''Current Price (per share)'' = Inr [FNum 0, FNum 0]
   \<and> get_num (frame64 zero_priced) ''Target Weight (%)'' = Inr [FNum 50, FNum 50]
   \<and> (\<exists>totals df'.
         calculate_portfolio_metrics_fp exact_arith (frame64 zero_priced) = Inr (totals, df')
         \<and> get_num df' ''Current Weight (%)'' = Inr [FNum 0, FNum 0])"
proof -
  have quiet: "\<not> list_ex (raises_row_fp exact_arith)
         (zip [FNum 100, FNum 50, FNum 80]
            (tv_col_fp exact_arith [FNum 1000, FNum 1000, FNum 960]
               [FNum 25, FNum 50, FNum 25] (FNum 0)))"
    by code_simp
  have cv: "map2 (mul64 exact_arith) [FNum 10, FNum 20, FNum 12] [FNum 100, FNum 50, FNum 80]
              = [FNum 1000, FNum 1000, FNum 960]"
    by simp
  have total: "sum64 exact_arith [FNum 1000, FNum 1000, FNum 960] = FNum 2960"
    by code_simp
  have tva: "tva_col_fp exact_arith [FNum 100, FNum 50, FNum 80]
               (tv_col_fp exact_arith [FNum 1000, FNum 1000, FNum 960]
                  [FNum 25, FNum 50, FNum 25] (FNum 0))
             = [FNum 700, FNum 1500, FNum 720]"
    by code_simp
  have total2: "sum64 exact_arith [FNum 700, FNum 1500, FNum 720] = FNum 2920"
    by code_simp
  have r1: "py_round (1000 / 2960 * 100 * 100) = 3378"
    by code_simp
  have r2: "py_round (700 / 2920 * 100 * 100) = 2397"
    by code_simp
  note t = weights_zero_guard [OF fixture64_reads(1,2,3), of exact_arith]
  from t obtain total' tcw ttw df' cw where m:
    "calculate_portfolio_metrics_fp exact_arith (frame64 fixture_enriched)
       = Inr ((total', tcw, ttw), df')"
    "total' = sum64 exact_arith
                (map2 (mul64 exact_arith) [FNum 10, FNum 20, FNum 12]
                   [FNum 100, FNum 50, FNum 80])"
    "get_num df' ''Current Weight (%)'' = Inr cw"
    "pos64 total' \<longrightarrow>
       length cw = length (map2 (mul64 exact_arith) [FNum 10, FNum 20, FNum 12]
                             [FNum 100, FNum 50, FNum 80])
       \<and> (\<forall>j < length cw.
             two_decimals exact_arith
               (mul64 exact_arith
                  (div64 exact_arith
                     (map2 (mul64 exact_arith) [FNum 10, FNum 20, FNum 12]
                        [FNum 100, FNum 50, FNum 80] ! j) total') (FNum 100))
               (cw ! j))"
    by blast
  from m(2) have tot: "total' = FNum 2960"
    by (simp only: cv total)
  with m(4) have "length cw = 3"
    "two_decimals exact_arith (FNum (1000 / 2960 * 100)) (cw ! 0)"
    by (auto simp: cv)
  then have w0: "cw ! 0 = FNum (3378 / 100)"
    using two_decimals_exact [of "1000 / 2960 * 100" "cw ! 0"] r1 by simp
  from t fixture64_reads(4) quiet obtain out df'' tva' rw where e:
    "calculate_rebalancing_metrics_fp exact_arith (frame64 fixture_enriched) (FNum 0)
       = Inr (out, df'')"
    "tva' = tva_col_fp exact_arith [FNum 100, FNum 50, FNum 80]
              (tv_col_fp exact_arith [FNum 1000, FNum 1000, FNum 960]
                 [FNum 25, FNum 50, FNum 25] (FNum 0))"
    "get_num out ''Real Weight (%)'' = Inr rw"
    "pos64 (sum64 exact_arith tva') \<longrightarrow>
       length rw = length tva'
       \<and> (\<forall>j < length rw.
             two_decimals exact_arith
               (mul64 exact_arith (div64 exact_arith (tva' ! j) (sum64 exact_arith tva'))
                  (FNum 100))
               (rw ! j))"
    by blast
  from e(2) have tva': "tva' = [FNum 700, FNum 1500, FNum 720]"
    by (simp only: tva)
  with e(4) have "length rw = 3"
    "two_decimals exact_arith (FNum (700 / 2920 * 100)) (rw ! 0)"
    by (auto simp: total2)
  then have rw0: "rw ! 0 = FNum (2397 / 100)"
    using two_decimals_exact [of "700 / 2920 * 100" "rw ! 0"] r2 by simp
  note z = weights_zero_guard [OF zero_priced64_reads(1,2,3), of exact_arith]
  have zcv: "sum64 exact_arith
               (map2 (mul64 exact_arith) [FNum 10, FNum 5] [FNum 0, FNum 0]) = FNum 0"
    by code_simp
  have zn: "nrows (frame64 zero_priced) = 2"
    by (simp add: frame64_def zero_priced_def)
  from z obtain ztotal ztcw zttw zdf zcw where zm:
    "calculate_portfolio_metrics_fp exact_arith (frame64 zero_priced)
       = Inr ((ztotal, ztcw, zttw), zdf)"
    "ztotal = sum64 exact_arith
                (map2 (mul64 exact_arith) [FNum 10, FNum 5] [FNum 0, FNum 0])"
    "get_num zdf ''Current Weight (%)'' = Inr zcw"
    "\<not> pos64 ztotal \<longrightarrow> zcw = replicate (nrows (frame64 zero_priced)) (FNum 0)"
    by blast
  from zm(2) have "ztotal = FNum 0"
    by (simp only: zcv)
  with zm(4) zn have "zcw = [FNum 0, FNum 0]"
    by (simp add: numeral_2_eq_2)
  with zm(3) have zw: "get_num zdf ''Current Weight (%)'' = Inr [FNum 0, FNum 0]"
    by simp
  from fixture64_reads quiet m(1,3) w0 e(1,3) rw0 zero_priced64_reads(1,2,3) zm(1) zw
  show ?thesis
    by blast
qed

section \<open>A holding without a price, in float64\<close>

lemma sum64_skip:
  assumes "i < length xs" and "xs ! i = FNaN"
  shows "sum64 A xs = sum64 A (xs[i := FNum 0])"
proof -
  have "map fill0 (xs[i := FNum 0]) = (map fill0 xs)[i := FNum 0]"
    by (simp add: map_update fill0_def)
  also have "\<dots> = map fill0 xs"
    using assms by (intro list_update_same_conv [THEN iffD2]) (simp_all add: fill0_def)
  finally show ?thesis
    by (simp add: sum64_def)
qed

lemma length_cols_fp [simp]:
  "length (tv_col_fp A cv tw cap) = length tw"
  "length (ts_col_fp A pr tv) = min (length pr) (length tv)"
  "length (tva_col_fp A pr tv) = min (length pr) (length tv)"
  by (simp_all add: tv_col_fp_def ts_col_fp_def tva_col_fp_def)

lemma nth_ts_col_fp:
  "i < length pr \<Longrightarrow> i < length tv \<Longrightarrow>
     ts_col_fp A pr tv ! i = FNum (of_int (share_of_fp A (pr ! i, tv ! i)))"
  by (simp add: ts_col_fp_def)

lemma nth_tva_col_fp:
  "i < length pr \<Longrightarrow> i < length tv \<Longrightarrow>
     tva_col_fp A pr tv ! i = mul64 A (FNum (of_int (share_of_fp A (pr ! i, tv ! i)))) (pr ! i)"
  by (simp add: tva_col_fp_def nth_ts_col_fp)

lemma nth_tv_col_fp:
  "i < length tw \<Longrightarrow>
     tv_col_fp A cv tw cap ! i = mul64 A (div64 A (tw ! i) (FNum 100)) (add64 A (sum64 A cv) cap)"
  by (simp add: tv_col_fp_def)


lemma missing_price64_reads:
  "get_num (frame64 missing_price) ''Shares Held'' = Inr [FNum 10, FNum 10]"
  "get_num (frame64 missing_price) ''Current Price (per share)'' = Inr [FNaN, FNum 100]"
  "get_num (frame64 missing_price) ''Target Weight (%)'' = Inr [FNum 50, FNum 50]"
  by (simp_all add: frame64_def missing_price_def get_num_def get_col_def)

lemma wf_missing_price64: "wf_df (frame64 missing_price)"
  by (simp add: wf_df_def columns_def frame64_def missing_price_def)


end
